theory Spec2Isabelle
  imports Complex_Main "HOL-Library.AList"
begin

section \<open>Python values used by the tool surface of \<^verbatim>\<open>main.py\<close>\<close>

text \<open>
  Exceptions are values. \<open>IndexError\<close> is what \<^verbatim>\<open>qubits[0]\<close> raises on a list that
  is too short, \<open>KeyError\<close> what a dict lookup raises on a missing key (it carries the
  key's text), \<open>ZeroDivisionError\<close> what \<^verbatim>\<open>/\<close> raises on a zero divisor.
  \<open>LibraryError\<close> is any exception raised inside the quantum library, with its message.
  All of them are subclasses of \<^verbatim>\<open>Exception\<close>, so \<^verbatim>\<open>except Exception\<close> catches each.
\<close>

datatype py_error =
    IndexError
  | KeyError string
  | ZeroDivisionError
  | LibraryError string

text \<open>\<^verbatim>\<open>str(e)\<close>\<close>

fun exn_str :: "py_error \<Rightarrow> string" where
  "exn_str IndexError = ''list index out of range''"
| "exn_str (KeyError k) = k"
| "exn_str ZeroDivisionError = ''division by zero''"
| "exn_str (LibraryError m) = m"

text \<open>The value handed to \<^verbatim>\<open>json.dumps\<close>; objects keep their insertion order.\<close>

datatype json =
    JNull
  | JBool bool
  | JInt int
  | JFloat real
  | JStr string
  | JArr "json list"
  | JObj "(string \<times> json) list"

text \<open>
  Every tool returns a \<^verbatim>\<open>str\<close>. \<open>Text t\<close> is the string \<open>t\<close> itself; \<open>Json j\<close> stands
  for the string \<^verbatim>\<open>json.dumps(j, indent=2)\<close>.
\<close>

datatype reply = Text string | Json json

text \<open>What a call of a tool function does at the tool boundary.\<close>

datatype outcome = Returns reply | Raises py_error

subsection \<open>Strings\<close>

text \<open>\<^verbatim>\<open>xs[i]\<close> for a constant index \<open>i \<ge> 0\<close>.\<close>

definition py_index :: "'a list \<Rightarrow> nat \<Rightarrow> py_error + 'a" where
  "py_index xs i = (if i < length xs then Inr (xs ! i) else Inl IndexError)"

text \<open>\<^verbatim>\<open>str.lower\<close> and \<^verbatim>\<open>str.upper\<close> on ASCII text.\<close>

definition lower_char :: "char \<Rightarrow> char" where
  "lower_char c =
     (let n = (of_char c :: nat) in if 65 \<le> n \<and> n \<le> 90 then char_of (n + 32) else c)"

definition upper_char :: "char \<Rightarrow> char" where
  "upper_char c =
     (let n = (of_char c :: nat) in if 97 \<le> n \<and> n \<le> 122 then char_of (n - 32) else c)"

definition lower :: "string \<Rightarrow> string" where
  "lower s = map lower_char s"

definition upper :: "string \<Rightarrow> string" where
  "upper s = map upper_char s"

text \<open>\<^verbatim>\<open>str(n)\<close> for an integer: decimal digits, a minus sign when negative.\<close>

definition digit_char :: "nat \<Rightarrow> char" where
  "digit_char d = char_of (48 + d)"

fun str_nat :: "nat \<Rightarrow> string" where
  "str_nat n = (if n < 10 then [digit_char n] else str_nat (n div 10) @ [digit_char (n mod 10)])"

declare str_nat.simps [simp del]

definition str_int :: "int \<Rightarrow> string" where
  "str_int i = (if i < 0 then CHR ''-'' # str_nat (nat (- i)) else str_nat (nat i))"

text \<open>\<^verbatim>\<open>"\n".join(lines)\<close>\<close>

fun join_lines :: "string list \<Rightarrow> string" where
  "join_lines [] = []"
| "join_lines [l] = l"
| "join_lines (l # ls) = l @ [CHR 0x0A] @ join_lines ls"

text \<open>\<^verbatim>\<open>", ".join(applied_gates)\<close>\<close>

fun join_comma :: "string list \<Rightarrow> string" where
  "join_comma [] = []"
| "join_comma [l] = l"
| "join_comma (l # ls) = l @ '', '' @ join_comma ls"

section \<open>Circuits and the quantum library\<close>

text \<open>
  A circuit object as the tools observe it: \<^verbatim>\<open>num_qubits\<close>, \<^verbatim>\<open>num_clbits\<close> and
  \<^verbatim>\<open>data\<close>, the instruction sequence in application order. An instruction carries its
  operation's name and parameters and the indices (\<^verbatim>\<open>find_bit(b).index\<close>) of the
  qubits and classical bits it acts on.
\<close>

record instr =
  op_name :: string
  op_params :: "real list"
  op_qubits :: "nat list"
  op_clbits :: "nat list"

record circuit =
  num_qubits :: nat
  num_clbits :: nat
  data :: "instr list"

text \<open>The circuit methods the gate tools call, with the arguments as passed.\<close>

datatype gate_call =
    Call_h int
  | Call_x int
  | Call_y int
  | Call_z int
  | Call_cx int int
  | Call_measure int int
  | Call_measure_all
  | Call_rx real int
  | Call_ry real int
  | Call_rz real int
  | Call_rxx real int int
  | Call_ryy real int int
  | Call_rzz real int int
  | Call_u real real real int
  | Call_swap int int
  | Call_s int
  | Call_sdg int
  | Call_t int
  | Call_tdg int

text \<open>
  The quantum library (Qiskit) and Python's float arithmetic are not part of the
  repository. The tools are modelled over an arbitrary library \<open>L\<close>: every result below
  holds whatever the library computes and whenever it raises.
  \<^item> \<open>new_circuit n m\<close>: \<^verbatim>\<open>QuantumCircuit(n, m)\<close>;
  \<^item> \<open>invoke c g\<close>: the method call \<open>g\<close> on circuit \<open>c\<close>, giving the mutated circuit;
  \<^item> \<open>simulate c shots\<close>: \<^verbatim>\<open>transpile\<close>, \<^verbatim>\<open>backend.run\<close>, \<^verbatim>\<open>job.result()\<close> and
    \<^verbatim>\<open>get_counts()\<close>;
  \<^item> \<open>depth_of\<close>, \<open>size_of\<close>, \<open>width_of\<close>, \<open>count_ops\<close>, \<open>draw_text\<close>: the circuit's
    \<^verbatim>\<open>depth()\<close>, \<^verbatim>\<open>size()\<close>, \<^verbatim>\<open>width()\<close>, \<^verbatim>\<open>count_ops()\<close>, \<^verbatim>\<open>draw(output='text')\<close>;
  \<^item> \<open>remove_final_measurements c\<close>: the in-place method, giving the mutated circuit;
  \<^item> \<open>statevector_report name c copy\<close> and \<open>density_report name c copy\<close>: the body of
    the \<^verbatim>\<open>try\<close> block of \<^verbatim>\<open>analyze_statevector\<close> and of \<^verbatim>\<open>compute_density_matrix\<close>
    (floating-point linear algebra on the stripped copy), giving the dictionary that
    is dumped or the exception raised;
  \<^item> \<open>run_passes c\<close>: \<^verbatim>\<open>PassManager([Optimize1qGates(), CommutativeCancellation()]).run(c)\<close>;
    \<open>transpile3 c\<close>: \<^verbatim>\<open>transpile(c, optimization_level=3)\<close>; both give a new circuit;
  \<^item> \<open>fmt_num\<close>: \<^verbatim>\<open>f"{x}"\<close>; \<open>fmt_3f\<close>: \<^verbatim>\<open>f"{x:.3f}"\<close>; \<open>float_div\<close>, \<open>float_mul\<close>,
    \<open>round2\<close>: float division of two integers, float multiplication and
    \<^verbatim>\<open>round(x, 2)\<close>.
\<close>

record library =
  new_circuit :: "int \<Rightarrow> int \<Rightarrow> py_error + circuit"
  invoke :: "circuit \<Rightarrow> gate_call \<Rightarrow> py_error + circuit"
  simulate :: "circuit \<Rightarrow> int \<Rightarrow> py_error + (string \<times> int) list"
  depth_of :: "circuit \<Rightarrow> nat"
  size_of :: "circuit \<Rightarrow> nat"
  width_of :: "circuit \<Rightarrow> nat"
  count_ops :: "circuit \<Rightarrow> (string \<times> int) list"
  draw_text :: "circuit \<Rightarrow> py_error + string"
  remove_final_measurements :: "circuit \<Rightarrow> py_error + circuit"
  statevector_report :: "string \<Rightarrow> circuit \<Rightarrow> circuit \<Rightarrow> py_error + json"
  density_report :: "string \<Rightarrow> circuit \<Rightarrow> circuit \<Rightarrow> py_error + json"
  run_passes :: "circuit \<Rightarrow> py_error + circuit"
  transpile3 :: "circuit \<Rightarrow> py_error + circuit"
  fmt_num :: "real \<Rightarrow> string"
  fmt_3f :: "real \<Rightarrow> string"
  float_div :: "int \<Rightarrow> int \<Rightarrow> real"
  float_mul :: "real \<Rightarrow> real \<Rightarrow> real"
  round2 :: "real \<Rightarrow> real"

section \<open>The registry\<close>

text \<open>
  \<^verbatim>\<open>circuits: Dict[str, QuantumCircuit] = {}\<close> holds references to circuit objects.
  The state is the dictionary (in insertion order) and the object store: a reference is
  an index into \<open>heap\<close>, allocation appends, and a method that mutates an object
  replaces the entry at its reference.
\<close>

type_synonym ref = nat

record state =
  circuits :: "(string \<times> ref) list"
  heap :: "circuit list"

definition alloc :: "state \<Rightarrow> circuit \<Rightarrow> ref \<times> state" where
  "alloc s c = (length (heap s), s\<lparr>heap := heap s @ [c]\<rparr>)"

definition mutate :: "state \<Rightarrow> ref \<Rightarrow> circuit \<Rightarrow> state" where
  "mutate s r c = s\<lparr>heap := (heap s)[r := c]\<rparr>"

text \<open>\<^verbatim>\<open>circuits[name] = obj\<close>\<close>

definition bind_name :: "state \<Rightarrow> string \<Rightarrow> ref \<Rightarrow> state" where
  "bind_name s name r = s\<lparr>circuits := AList.update name r (circuits s)\<rparr>"

text \<open>The circuit registered under a name, if any.\<close>

definition circuit_at :: "state \<Rightarrow> string \<Rightarrow> circuit option" where
  "circuit_at s name = map_option (\<lambda>r. heap s ! r) (map_of (circuits s) name)"

text \<open>Every registered reference points into the store.\<close>

definition wf_state :: "state \<Rightarrow> bool" where
  "wf_state s = list_all (\<lambda>(n, r). r < length (heap s)) (circuits s)"

section \<open>Name generation\<close>

text \<open>\<^verbatim>\<open>'...'\<close> around a name, as the f-strings of the tools write it.\<close>

definition quoted :: "string \<Rightarrow> string" where
  "quoted n = [CHR 0x27] @ n @ [CHR 0x27]"

text \<open>
  \<^verbatim>\<open>_generate_unique_circuit_name\<close>: \<open>timestamp\<close> is the value of
  \<^verbatim>\<open>int(time.time() * 1000)\<close> and \<open>uuid\<close> the text of \<^verbatim>\<open>uuid.uuid4()\<close>, both read from
  the outside world.
\<close>

definition generate_unique_circuit_name :: "int \<Rightarrow> string \<Rightarrow> string" where
  "generate_unique_circuit_name timestamp uuid =
     ''circuit_'' @ str_int timestamp @ ''_'' @ take 8 uuid"

text \<open>\<^verbatim>\<open>f"{original_name}_{counter}"\<close>\<close>

definition suffixed :: "string \<Rightarrow> nat \<Rightarrow> string" where
  "suffixed original_name counter = original_name @ ''_'' @ str_nat counter"

lemma str_nat_nonempty: "str_nat n \<noteq> []"
  by (subst str_nat.simps) simp

lemma digit_char_inj: "a < 10 \<Longrightarrow> b < 10 \<Longrightarrow> digit_char a = digit_char b \<Longrightarrow> a = b"
proof -
  assume a: "a < 10" and b: "b < 10" and e: "digit_char a = digit_char b"
  from e have "(of_char (digit_char a) :: nat) = of_char (digit_char b)" by simp
  with a b show "a = b" by (simp add: digit_char_def)
qed

lemma str_nat_inj: "str_nat n = str_nat m \<Longrightarrow> n = m"
proof (induction n arbitrary: m rule: str_nat.induct)
  case (1 n)
  show ?case
  proof (cases "n < 10")
    case small_n: True
    show ?thesis
    proof (cases "m < 10")
      case True
      with small_n "1.prems" show ?thesis
        by (simp add: str_nat.simps [of n] str_nat.simps [of m] digit_char_inj)
    next
      case False
      with small_n "1.prems" str_nat_nonempty [of "m div 10"] show ?thesis
        by (simp add: str_nat.simps [of n] str_nat.simps [of m] Cons_eq_append_conv)
    qed
  next
    case big_n: False
    show ?thesis
    proof (cases "m < 10")
      case True
      with big_n "1.prems" str_nat_nonempty [of "n div 10"] show ?thesis
        by (simp add: str_nat.simps [of n] str_nat.simps [of m] append_eq_Cons_conv)
    next
      case False
      with big_n "1.prems" have eq: "str_nat (n div 10) = str_nat (m div 10)"
        and d: "digit_char (n mod 10) = digit_char (m mod 10)"
        by (simp_all add: str_nat.simps [of n] str_nat.simps [of m])
      from "1.IH" [OF big_n eq] have "n div 10 = m div 10" .
      moreover from d have "n mod 10 = m mod 10"
        by (intro digit_char_inj) simp_all
      ultimately show ?thesis
        by (metis div_mult_mod_eq)
    qed
  qed
qed

lemma suffixed_inj: "suffixed n a = suffixed n b \<Longrightarrow> a = b"
  by (simp add: suffixed_def str_nat_inj)

text \<open>
  The loop of \<^verbatim>\<open>create_quantum_circuit\<close> that makes a requested name unique:
  \<^verbatim>\<open>while name in circuits: name = f"{original_name}_{counter}"; counter += 1\<close>.
  \<open>keys\<close> are the keys of the dictionary.
\<close>

function unique_name :: "string list \<Rightarrow> string \<Rightarrow> string \<Rightarrow> nat \<Rightarrow> string" where
  "unique_name keys original_name name counter =
     (if name \<in> set keys
      then unique_name keys original_name (suffixed original_name counter) (counter + 1)
      else name)"
  by pat_completeness auto

text \<open>The suffixes from \<open>counter\<close> on that are taken; the loop's variant.\<close>

definition taken_from :: "string list \<Rightarrow> string \<Rightarrow> nat \<Rightarrow> nat set" where
  "taken_from keys original_name counter =
     {k. counter \<le> k \<and> suffixed original_name k \<in> set keys}"

lemma finite_taken_from: "finite (taken_from keys n c)"
proof -
  have "inj_on (suffixed n) (taken_from keys n c)"
    by (auto simp: inj_on_def dest: suffixed_inj)
  moreover have "suffixed n ` taken_from keys n c \<subseteq> set keys"
    by (auto simp: taken_from_def)
  ultimately show ?thesis
    by (metis finite_imageD finite_subset List.finite_set)
qed

lemma taken_from_Suc:
  "taken_from keys n c =
     (if suffixed n c \<in> set keys then insert c (taken_from keys n (Suc c))
      else taken_from keys n (Suc c))"
  by (auto simp: taken_from_def Suc_le_eq le_less)

termination unique_name
proof (relation "measure (\<lambda>(keys, original_name, name, counter).
          card (taken_from keys original_name counter) + (if name \<in> set keys then 1 else 0))")
  show "wf (measure (\<lambda>(keys, original_name, name, counter).
          card (taken_from keys original_name counter) + (if name \<in> set keys then 1 else 0)))"
    by simp
next
  fix keys :: "string list" and original_name name :: string and counter :: nat
  assume "name \<in> set keys"
  moreover have "counter \<notin> taken_from keys original_name (Suc counter)"
    by (simp add: taken_from_def)
  ultimately show "((keys, original_name, suffixed original_name counter, counter + 1),
            (keys, original_name, name, counter))
          \<in> measure (\<lambda>(keys, original_name, name, counter).
          card (taken_from keys original_name counter) + (if name \<in> set keys then 1 else 0))"
    by (simp add: taken_from_Suc [of keys original_name counter] finite_taken_from)
qed

declare unique_name.simps [simp del]

section \<open>The tools\<close>

subsection \<open>\<^verbatim>\<open>create_quantum_circuit\<close>\<close>

text \<open>
  \<open>num_classical_bits\<close> and \<open>name\<close> are \<open>None\<close> when the caller leaves them out.
  When the constructor raises, nothing has been stored. The parameter \<^verbatim>\<open>num_qubits\<close> is
  written \<open>n_qubits\<close>: \<open>num_qubits\<close> is the circuit's attribute.
\<close>

definition create_quantum_circuit ::
  "library \<Rightarrow> int \<Rightarrow> string \<Rightarrow> state \<Rightarrow> int \<Rightarrow> int option \<Rightarrow> string option \<Rightarrow> state \<times> outcome" where
  "create_quantum_circuit L timestamp uuid s n_qubits num_classical_bits name =
     (let num_classical_bits = (case num_classical_bits of None \<Rightarrow> n_qubits | Some m \<Rightarrow> m);
          name = (case name of
                    None \<Rightarrow> generate_unique_circuit_name timestamp uuid
                  | Some original_name \<Rightarrow>
                      unique_name (map fst (circuits s)) original_name original_name 1)
      in case new_circuit L n_qubits num_classical_bits of
           Inl e \<Rightarrow> (s, Raises e)
         | Inr circuit \<Rightarrow>
             (let (r, s1) = alloc s circuit
              in (bind_name s1 name r,
                  Returns (Text (''Created quantum circuit '' @ quoted name @ '' with ''
                    @ str_int n_qubits @ '' qubits and '' @ str_int num_classical_bits
                    @ '' classical bits'')))))"

subsection \<open>\<^verbatim>\<open>add_gates\<close> and \<^verbatim>\<open>add_advanced_gates\<close>\<close>

text \<open>
  An element of \<^verbatim>\<open>gates: List[Dict[str, Any]]\<close>: the keys the tools read, each \<open>None\<close>
  when the dictionary does not have it.
\<close>

record gate_spec =
  g_type :: "string option"
  g_qubits :: "int list option"
  g_params :: "real list option"
  g_classical_bit :: "int option"

text \<open>
  One pass through the loop body: the gate was applied (the circuit as mutated and the
  entry for \<^verbatim>\<open>applied_gates\<close>), the body returned from the tool with a message, or it
  raised.
\<close>

datatype step = Applied circuit string | Unsupported string | Failed py_error

text \<open>
  \<^verbatim>\<open>circuit.m(qubits[0])\<close> and \<^verbatim>\<open>circuit.m(qubits[0], qubits[1])\<close>, followed by the
  \<^verbatim>\<open>append\<close> of the message: the arguments are evaluated first, then the method runs.
\<close>

definition on_qubit :: "library \<Rightarrow> circuit \<Rightarrow> int list \<Rightarrow> (int \<Rightarrow> gate_call) \<Rightarrow> (int \<Rightarrow> string) \<Rightarrow> step" where
  "on_qubit L circuit qubits call msg =
     (case py_index qubits 0 of
        Inl e \<Rightarrow> Failed e
      | Inr q0 \<Rightarrow>
          (case invoke L circuit (call q0) of
             Inl e \<Rightarrow> Failed e
           | Inr circuit' \<Rightarrow> Applied circuit' (msg q0)))"

definition on_qubits :: "library \<Rightarrow> circuit \<Rightarrow> int list \<Rightarrow> (int \<Rightarrow> int \<Rightarrow> gate_call) \<Rightarrow> (int \<Rightarrow> int \<Rightarrow> string) \<Rightarrow> step" where
  "on_qubits L circuit qubits call msg =
     (case py_index qubits 0 of
        Inl e \<Rightarrow> Failed e
      | Inr q0 \<Rightarrow>
          (case py_index qubits 1 of
             Inl e \<Rightarrow> Failed e
           | Inr q1 \<Rightarrow>
               (case invoke L circuit (call q0 q1) of
                  Inl e \<Rightarrow> Failed e
                | Inr circuit' \<Rightarrow> Applied circuit' (msg q0 q1))))"

text \<open>The body of the \<^verbatim>\<open>for\<close> loop of \<^verbatim>\<open>add_gates\<close>.\<close>

definition basic_gate :: "library \<Rightarrow> circuit \<Rightarrow> gate_spec \<Rightarrow> step" where
  "basic_gate L circuit gate =
     (let gate_type = lower (case g_type gate of None \<Rightarrow> [] | Some t \<Rightarrow> t);
          qubits = (case g_qubits gate of None \<Rightarrow> [] | Some qs \<Rightarrow> qs)
      in if gate_type = ''h'' then
           on_qubit L circuit qubits Call_h (\<lambda>q0. ''H gate on qubit '' @ str_int q0)
         else if gate_type = ''x'' then
           on_qubit L circuit qubits Call_x (\<lambda>q0. ''X gate on qubit '' @ str_int q0)
         else if gate_type = ''y'' then
           on_qubit L circuit qubits Call_y (\<lambda>q0. ''Y gate on qubit '' @ str_int q0)
         else if gate_type = ''z'' then
           on_qubit L circuit qubits Call_z (\<lambda>q0. ''Z gate on qubit '' @ str_int q0)
         else if gate_type = ''cx'' then
           on_qubits L circuit qubits Call_cx
             (\<lambda>q0 q1. ''CNOT gate from qubit '' @ str_int q0 @ '' to '' @ str_int q1)
         else if gate_type = ''measure'' then
           on_qubit L circuit qubits
             (\<lambda>q0. Call_measure q0 (case g_classical_bit gate of None \<Rightarrow> q0 | Some cb \<Rightarrow> cb))
             (\<lambda>q0. ''Measure qubit '' @ str_int q0)
         else if gate_type = ''measure_all'' then
           (case invoke L circuit Call_measure_all of
              Inl e \<Rightarrow> Failed e
            | Inr circuit' \<Rightarrow> Applied circuit' ''Measure all qubits'')
         else Unsupported (''Unsupported gate type: '' @ gate_type))"

text \<open>\<^verbatim>\<open>params[i] if len(params) > i else 0\<close>\<close>

definition param_or_0 :: "real list \<Rightarrow> nat \<Rightarrow> real" where
  "param_or_0 params i = (if i < length params then params ! i else 0)"

text \<open>The dagger of the messages for \<^verbatim>\<open>sdg\<close> and \<^verbatim>\<open>tdg\<close>, in UTF-8.\<close>

definition dagger :: string where
  "dagger = [CHR 0xE2, CHR 0x80, CHR 0xA0]"

text \<open>The body of the \<^verbatim>\<open>for\<close> loop of \<^verbatim>\<open>add_advanced_gates\<close>.\<close>

definition advanced_gate :: "library \<Rightarrow> circuit \<Rightarrow> gate_spec \<Rightarrow> step" where
  "advanced_gate L circuit gate =
     (let gate_type = lower (case g_type gate of None \<Rightarrow> [] | Some t \<Rightarrow> t);
          qubits = (case g_qubits gate of None \<Rightarrow> [] | Some qs \<Rightarrow> qs);
          params = (case g_params gate of None \<Rightarrow> [] | Some ps \<Rightarrow> ps);
          angle = param_or_0 params 0
      in if gate_type = ''rx'' then
           on_qubit L circuit qubits (Call_rx angle)
             (\<lambda>q0. ''RX('' @ fmt_num L angle @ '') gate on qubit '' @ str_int q0)
         else if gate_type = ''ry'' then
           on_qubit L circuit qubits (Call_ry angle)
             (\<lambda>q0. ''RY('' @ fmt_num L angle @ '') gate on qubit '' @ str_int q0)
         else if gate_type = ''rz'' then
           on_qubit L circuit qubits (Call_rz angle)
             (\<lambda>q0. ''RZ('' @ fmt_num L angle @ '') gate on qubit '' @ str_int q0)
         else if gate_type = ''rxx'' then
           on_qubits L circuit qubits (Call_rxx angle)
             (\<lambda>q0 q1. ''RXX('' @ fmt_num L angle @ '') gate on qubits '' @ str_int q0 @ '', '' @ str_int q1)
         else if gate_type = ''ryy'' then
           on_qubits L circuit qubits (Call_ryy angle)
             (\<lambda>q0 q1. ''RYY('' @ fmt_num L angle @ '') gate on qubits '' @ str_int q0 @ '', '' @ str_int q1)
         else if gate_type = ''rzz'' then
           on_qubits L circuit qubits (Call_rzz angle)
             (\<lambda>q0 q1. ''RZZ('' @ fmt_num L angle @ '') gate on qubits '' @ str_int q0 @ '', '' @ str_int q1)
         else if gate_type = ''u'' then
           (let theta = param_or_0 params 0; phi = param_or_0 params 1; lam = param_or_0 params 2
            in on_qubit L circuit qubits (Call_u theta phi lam)
                 (\<lambda>q0. ''U('' @ fmt_num L theta @ '', '' @ fmt_num L phi @ '', '' @ fmt_num L lam
                        @ '') gate on qubit '' @ str_int q0))
         else if gate_type = ''swap'' then
           on_qubits L circuit qubits Call_swap
             (\<lambda>q0 q1. ''SWAP gate on qubits '' @ str_int q0 @ '', '' @ str_int q1)
         else if gate_type = ''s'' then
           on_qubit L circuit qubits Call_s (\<lambda>q0. ''S gate on qubit '' @ str_int q0)
         else if gate_type = ''sdg'' then
           on_qubit L circuit qubits Call_sdg (\<lambda>q0. ''S'' @ dagger @ '' gate on qubit '' @ str_int q0)
         else if gate_type = ''t'' then
           on_qubit L circuit qubits Call_t (\<lambda>q0. ''T gate on qubit '' @ str_int q0)
         else if gate_type = ''tdg'' then
           on_qubit L circuit qubits Call_tdg (\<lambda>q0. ''T'' @ dagger @ '' gate on qubit '' @ str_int q0)
         else Unsupported (''Unsupported advanced gate type: '' @ gate_type))"

text \<open>
  How the \<^verbatim>\<open>for gate in gates\<close> loop ends: it ran through (with \<^verbatim>\<open>applied_gates\<close>), it
  returned early with a message, or it raised.
\<close>

datatype loop_end = Finished "string list" | Stopped string | Raised py_error

text \<open>
  The loop over \<open>gates\<close>. \<open>body\<close> is the loop body, \<open>r\<close> the reference held by the local
  variable \<^verbatim>\<open>circuit\<close>: every gate applied mutates the object at \<open>r\<close> at once, so what
  was applied stays applied when a later pass returns or raises.
\<close>

fun gates_loop ::
  "(circuit \<Rightarrow> gate_spec \<Rightarrow> step) \<Rightarrow> state \<Rightarrow> ref \<Rightarrow> gate_spec list \<Rightarrow> string list \<Rightarrow> state \<times> loop_end" where
  "gates_loop body s r [] applied_gates = (s, Finished applied_gates)"
| "gates_loop body s r (gate # gates) applied_gates =
     (case body (heap s ! r) gate of
        Applied circuit' m \<Rightarrow> gates_loop body (mutate s r circuit') r gates (applied_gates @ [m])
      | Unsupported m \<Rightarrow> (s, Stopped m)
      | Failed e \<Rightarrow> (s, Raised e))"

text \<open>\<^verbatim>\<open>add_gates\<close> has no \<^verbatim>\<open>try\<close>: an exception of the loop leaves the tool.\<close>

definition add_gates :: "library \<Rightarrow> state \<Rightarrow> string \<Rightarrow> gate_spec list \<Rightarrow> state \<times> outcome" where
  "add_gates L s circuit_name gates =
     (case map_of (circuits s) circuit_name of
        None \<Rightarrow> (s, Returns (Text (''Circuit '' @ quoted circuit_name @ '' not found. Create it first.'')))
      | Some r \<Rightarrow>
          (case gates_loop (basic_gate L) s r gates [] of
             (s', Finished applied_gates) \<Rightarrow>
               (s', Returns (Text (''Applied gates to '' @ quoted circuit_name @ '': ''
                                   @ join_comma applied_gates)))
           | (s', Stopped m) \<Rightarrow> (s', Returns (Text m))
           | (s', Raised e) \<Rightarrow> (s', Raises e)))"

text \<open>\<^verbatim>\<open>add_advanced_gates\<close> wraps the loop in \<^verbatim>\<open>try ... except Exception as e\<close>.\<close>

definition add_advanced_gates :: "library \<Rightarrow> state \<Rightarrow> string \<Rightarrow> gate_spec list \<Rightarrow> state \<times> outcome" where
  "add_advanced_gates L s circuit_name gates =
     (case map_of (circuits s) circuit_name of
        None \<Rightarrow> (s, Returns (Text (''Circuit '' @ quoted circuit_name @ '' not found. Create it first.'')))
      | Some r \<Rightarrow>
          (case gates_loop (advanced_gate L) s r gates [] of
             (s', Finished applied_gates) \<Rightarrow>
               (s', Returns (Text (''Applied advanced gates to '' @ quoted circuit_name @ '': ''
                                   @ join_comma applied_gates)))
           | (s', Stopped m) \<Rightarrow> (s', Returns (Text m))
           | (s', Raised e) \<Rightarrow>
               (s', Returns (Text (''Error adding advanced gates to '' @ quoted circuit_name @ '': ''
                                   @ exn_str e)))))"

subsection \<open>\<^verbatim>\<open>run_circuit\<close>, \<^verbatim>\<open>get_circuit_info\<close>, \<^verbatim>\<open>visualize_circuit\<close>, \<^verbatim>\<open>list_circuits\<close>\<close>

text \<open>\<^verbatim>\<open>run_circuit\<close> has no \<^verbatim>\<open>try\<close> around the backend.\<close>

definition run_circuit :: "library \<Rightarrow> state \<Rightarrow> string \<Rightarrow> int \<Rightarrow> state \<times> outcome" where
  "run_circuit L s circuit_name shots =
     (case map_of (circuits s) circuit_name of
        None \<Rightarrow> (s, Returns (Text (''Circuit '' @ quoted circuit_name @ '' not found'')))
      | Some r \<Rightarrow>
          (case simulate L (heap s ! r) shots of
             Inl e \<Rightarrow> (s, Raises e)
           | Inr counts \<Rightarrow>
               (s, Returns (Json (JObj
                  [(''circuit'', JStr circuit_name),
                   (''shots'', JInt shots),
                   (''results'', JObj (map (\<lambda>(k, v). (k, JInt v)) counts)),
                   (''total_counts'', JInt (sum_list (map snd counts)))])))))"

definition get_circuit_info :: "library \<Rightarrow> state \<Rightarrow> string \<Rightarrow> state \<times> outcome" where
  "get_circuit_info L s circuit_name =
     (case map_of (circuits s) circuit_name of
        None \<Rightarrow> (s, Returns (Text (''Circuit '' @ quoted circuit_name @ '' not found'')))
      | Some r \<Rightarrow>
          (let circuit = heap s ! r
           in (s, Returns (Json (JObj
                  [(''name'', JStr circuit_name),
                   (''num_qubits'', JInt (int (num_qubits circuit))),
                   (''num_classical_bits'', JInt (int (num_clbits circuit))),
                   (''depth'', JInt (int (depth_of L circuit))),
                   (''size'', JInt (int (size_of L circuit))),
                   (''width'', JInt (int (width_of L circuit))),
                   (''gate_counts'', JObj (map (\<lambda>(k, v). (k, JInt v)) (count_ops L circuit)))])))))"

definition visualize_circuit :: "library \<Rightarrow> state \<Rightarrow> string \<Rightarrow> state \<times> outcome" where
  "visualize_circuit L s circuit_name =
     (case map_of (circuits s) circuit_name of
        None \<Rightarrow> (s, Returns (Text (''Circuit '' @ quoted circuit_name @ '' not found'')))
      | Some r \<Rightarrow>
          (case draw_text L (heap s ! r) of
             Inl e \<Rightarrow> (s, Raises e)
           | Inr t \<Rightarrow> (s, Returns (Text t))))"

text \<open>The summary \<^verbatim>\<open>list_circuits\<close> builds for one circuit.\<close>

definition summary :: "library \<Rightarrow> circuit \<Rightarrow> json" where
  "summary L circuit =
     JObj [(''qubits'', JInt (int (num_qubits circuit))),
           (''classical_bits'', JInt (int (num_clbits circuit))),
           (''gates'', JInt (int (size_of L circuit)))]"

definition list_circuits :: "library \<Rightarrow> state \<Rightarrow> state \<times> outcome" where
  "list_circuits L s =
     (if circuits s = [] then (s, Returns (Text ''No circuits created yet''))
      else (s, Returns (Json (JObj
              (map (\<lambda>(name, r). (name, summary L (heap s ! r))) (circuits s))))))"

subsection \<open>\<^verbatim>\<open>analyze_statevector\<close> and \<^verbatim>\<open>compute_density_matrix\<close>\<close>

text \<open>
  \<^verbatim>\<open>circuit.copy()\<close> allocates a new object; \<^verbatim>\<open>remove_final_measurements(inplace=True)\<close>
  mutates that object and stands before the \<^verbatim>\<open>try\<close>.
\<close>

definition analyze_statevector :: "library \<Rightarrow> state \<Rightarrow> string \<Rightarrow> state \<times> outcome" where
  "analyze_statevector L s circuit_name =
     (case map_of (circuits s) circuit_name of
        None \<Rightarrow> (s, Returns (Text (''Circuit '' @ quoted circuit_name @ '' not found'')))
      | Some r \<Rightarrow>
          (let (circuit_copy, s1) = alloc s (heap s ! r)
           in case remove_final_measurements L (heap s1 ! circuit_copy) of
                Inl e \<Rightarrow> (s1, Raises e)
              | Inr stripped \<Rightarrow>
                  (let s2 = mutate s1 circuit_copy stripped
                   in case statevector_report L circuit_name (heap s2 ! r) (heap s2 ! circuit_copy) of
                        Inr analysis \<Rightarrow> (s2, Returns (Json analysis))
                      | Inl e \<Rightarrow>
                          (s2, Returns (Text (''Error analyzing statevector for ''
                                 @ quoted circuit_name @ '': '' @ exn_str e))))))"

definition compute_density_matrix :: "library \<Rightarrow> state \<Rightarrow> string \<Rightarrow> state \<times> outcome" where
  "compute_density_matrix L s circuit_name =
     (case map_of (circuits s) circuit_name of
        None \<Rightarrow> (s, Returns (Text (''Circuit '' @ quoted circuit_name @ '' not found'')))
      | Some r \<Rightarrow>
          (let (circuit_copy, s1) = alloc s (heap s ! r)
           in case remove_final_measurements L (heap s1 ! circuit_copy) of
                Inl e \<Rightarrow> (s1, Raises e)
              | Inr stripped \<Rightarrow>
                  (let s2 = mutate s1 circuit_copy stripped
                   in case density_report L circuit_name (heap s2 ! r) (heap s2 ! circuit_copy) of
                        Inr analysis \<Rightarrow> (s2, Returns (Json analysis))
                      | Inl e \<Rightarrow>
                          (s2, Returns (Text (''Error computing density matrix for ''
                                 @ quoted circuit_name @ '': '' @ exn_str e))))))"

subsection \<open>\<^verbatim>\<open>optimize_circuit\<close>\<close>

text \<open>\<^verbatim>\<open>a / b\<close> on integers: a float, or \<^verbatim>\<open>ZeroDivisionError\<close>.\<close>

definition py_truediv :: "library \<Rightarrow> int \<Rightarrow> int \<Rightarrow> py_error + real" where
  "py_truediv L a b = (if b = 0 then Inl ZeroDivisionError else Inr (float_div L a b))"

text \<open>
  \<^verbatim>\<open>round(((original_size - optimized_size) / original_size * 100), 2) if original_size > 0 else 0\<close>:
  the conditional expression evaluates only the branch it takes.
\<close>

definition improvement_percentage :: "library \<Rightarrow> int \<Rightarrow> int \<Rightarrow> py_error + json" where
  "improvement_percentage L original_size optimized_size =
     (if original_size > 0 then
        (case py_truediv L (original_size - optimized_size) original_size of
           Inl e \<Rightarrow> Inl e
         | Inr q \<Rightarrow> Inr (JFloat (round2 L (float_mul L q 100))))
      else Inr (JInt 0))"

text \<open>The first part of the \<^verbatim>\<open>try\<close> block: the optimized circuit, a new object.\<close>

definition optimized :: "library \<Rightarrow> circuit \<Rightarrow> int \<Rightarrow> py_error + circuit" where
  "optimized L circuit optimization_level =
     (if optimization_level = 0 then Inr circuit
      else if optimization_level = 1 then run_passes L circuit
      else if optimization_level = 2 then run_passes L circuit
      else transpile3 L circuit)"

text \<open>
  \<open>uuid\<close> is the text of \<^verbatim>\<open>uuid.uuid4()\<close>. The new entry is stored before the sizes are
  compared, inside the \<^verbatim>\<open>try\<close>.
\<close>

definition optimize_circuit :: "library \<Rightarrow> string \<Rightarrow> state \<Rightarrow> string \<Rightarrow> int \<Rightarrow> state \<times> outcome" where
  "optimize_circuit L uuid s circuit_name optimization_level =
     (case map_of (circuits s) circuit_name of
        None \<Rightarrow> (s, Returns (Text (''Circuit '' @ quoted circuit_name @ '' not found'')))
      | Some r \<Rightarrow>
          if optimization_level \<notin> set [0, 1, 2, 3]
          then (s, Returns (Text ''Optimization level must be 0, 1, 2, or 3''))
          else
            (let circuit = heap s ! r
             in case optimized L circuit optimization_level of
                  Inl e \<Rightarrow>
                    (s, Returns (Text (''Error optimizing circuit '' @ quoted circuit_name @ '': ''
                                       @ exn_str e)))
                | Inr optimized_circuit \<Rightarrow>
                    (let optimized_name = circuit_name @ ''_opt'' @ str_int optimization_level
                                          @ ''_'' @ take 8 uuid;
                         (new_ref, s1) = alloc s optimized_circuit;
                         s2 = bind_name s1 optimized_name new_ref;
                         original_size = int (size_of L circuit);
                         original_depth = int (depth_of L circuit);
                         optimized_size = int (size_of L optimized_circuit);
                         optimized_depth = int (depth_of L optimized_circuit)
                     in case improvement_percentage L original_size optimized_size of
                          Inl e \<Rightarrow>
                            (s2, Returns (Text (''Error optimizing circuit '' @ quoted circuit_name
                                                @ '': '' @ exn_str e)))
                        | Inr improvement \<Rightarrow>
                            (s2, Returns (Json (JObj
                               [(''original_circuit'', JStr circuit_name),
                                (''optimized_circuit'', JStr optimized_name),
                                (''optimization_level'', JInt optimization_level),
                                (''original_size'', JInt original_size),
                                (''optimized_size'', JInt optimized_size),
                                (''size_reduction'', JInt (original_size - optimized_size)),
                                (''original_depth'', JInt original_depth),
                                (''optimized_depth'', JInt optimized_depth),
                                (''depth_reduction'', JInt (original_depth - optimized_depth)),
                                (''improvement_percentage'', improvement)]))))))"

subsection \<open>\<^verbatim>\<open>visualize_circuit_mermaid\<close>\<close>

text \<open>The ket of the qubit start nodes, in UTF-8.\<close>

definition ket0 :: string where
  "ket0 = ''|0'' @ [CHR 0xE2, CHR 0x9F, CHR 0xA9]"

text \<open>\<^verbatim>\<open>f"    {a} --> {b}"\<close> and \<^verbatim>\<open>f"    {node_id}[{label}]"\<close>\<close>

definition edge :: "string \<Rightarrow> string \<Rightarrow> string" where
  "edge a b = ''    '' @ a @ '' --> '' @ b"

definition node_decl :: "string \<Rightarrow> string \<Rightarrow> string" where
  "node_decl node_id label = ''    '' @ node_id @ ''['' @ label @ '']''"

definition start_node :: "nat \<Rightarrow> string" where
  "start_node i = ''Q'' @ str_nat i @ ''_start''"

definition final_node :: "nat \<Rightarrow> string" where
  "final_node i = ''Q'' @ str_nat i @ ''_final''"

text \<open>
  The state of the walk: \<^verbatim>\<open>mermaid_lines\<close>, the dictionary \<^verbatim>\<open>qubit_current_nodes\<close> and
  \<^verbatim>\<open>gate_counter\<close>. There is no dictionary for the classical bits.
\<close>

record walk =
  mermaid_lines :: "string list"
  qubit_current_nodes :: "nat \<rightharpoonup> string"
  gate_counter :: nat

definition add_node :: "string \<Rightarrow> string \<Rightarrow> walk \<Rightarrow> walk" where
  "add_node node_id label w = w\<lparr>mermaid_lines := mermaid_lines w @ [node_decl node_id label]\<rparr>"

text \<open>
  The edge from the current node of qubit \<open>q\<close>, then \<^verbatim>\<open>qubit_current_nodes[q] = node_id\<close>;
  a key the dictionary does not have raises.
\<close>

definition link :: "string \<Rightarrow> nat \<Rightarrow> walk \<Rightarrow> py_error + walk" where
  "link node_id q w =
     (case qubit_current_nodes w q of
        None \<Rightarrow> Inl (KeyError (str_nat q))
      | Some src \<Rightarrow>
          Inr (w\<lparr>mermaid_lines := mermaid_lines w @ [edge src node_id],
                 qubit_current_nodes := (qubit_current_nodes w)(q \<mapsto> node_id)\<rparr>))"

text \<open>The branches that use \<^verbatim>\<open>qubits[0]\<close> only.\<close>

definition link_first :: "string \<Rightarrow> nat list \<Rightarrow> walk \<Rightarrow> py_error + walk" where
  "link_first node_id qubits w =
     (case py_index qubits 0 of Inl e \<Rightarrow> Inl e | Inr q0 \<Rightarrow> link node_id q0 w)"

text \<open>The branches for CX and SWAP: both edges are written, then both entries are set.\<close>

definition link_pair :: "string \<Rightarrow> nat list \<Rightarrow> walk \<Rightarrow> py_error + walk" where
  "link_pair node_id qubits w =
     (case py_index qubits 0 of
        Inl e \<Rightarrow> Inl e
      | Inr q0 \<Rightarrow>
          (case qubit_current_nodes w q0 of
             None \<Rightarrow> Inl (KeyError (str_nat q0))
           | Some src0 \<Rightarrow>
               (case py_index qubits 1 of
                  Inl e \<Rightarrow> Inl e
                | Inr q1 \<Rightarrow>
                    (case qubit_current_nodes w q1 of
                       None \<Rightarrow> Inl (KeyError (str_nat q1))
                     | Some src1 \<Rightarrow>
                         Inr (w\<lparr>mermaid_lines := mermaid_lines w
                                   @ [edge src0 node_id, edge src1 node_id],
                                qubit_current_nodes :=
                                  (qubit_current_nodes w)(q0 \<mapsto> node_id, q1 \<mapsto> node_id)\<rparr>)))))"

text \<open>\<^verbatim>\<open>for qubit in qubits:\<close> of the rotation branch and of the generic branch.\<close>

fun link_all :: "string \<Rightarrow> nat list \<Rightarrow> walk \<Rightarrow> py_error + walk" where
  "link_all node_id [] w = Inr w"
| "link_all node_id (q # qs) w =
     (case link node_id q w of Inl e \<Rightarrow> Inl e | Inr w' \<Rightarrow> link_all node_id qs w')"

text \<open>
  The MEASURE branch: the edge from the qubit's current node, the edge to a node named
  after the classical bit and the counter, then the qubit's entry is set.
\<close>

definition link_measure :: "string \<Rightarrow> nat list \<Rightarrow> nat list \<Rightarrow> walk \<Rightarrow> py_error + walk" where
  "link_measure node_id qubits clbits w =
     (case py_index qubits 0 of
        Inl e \<Rightarrow> Inl e
      | Inr q0 \<Rightarrow>
          (case qubit_current_nodes w q0 of
             None \<Rightarrow> Inl (KeyError (str_nat q0))
           | Some src \<Rightarrow>
               Inr (w\<lparr>mermaid_lines := mermaid_lines w @ [edge src node_id]
                         @ (if clbits \<noteq> []
                            then [edge node_id (''C'' @ str_nat (clbits ! 0) @ ''_end''
                                                @ str_nat (gate_counter w))]
                            else []),
                      qubit_current_nodes := (qubit_current_nodes w)(q0 \<mapsto> node_id)\<rparr>)))"

text \<open>The body of \<^verbatim>\<open>for instruction in circuit.data\<close>.\<close>

definition emit_instruction :: "library \<Rightarrow> instr \<Rightarrow> walk \<Rightarrow> py_error + walk" where
  "emit_instruction L instruction w0 =
     (let w = w0\<lparr>gate_counter := gate_counter w0 + 1\<rparr>;
          qubits = op_qubits instruction;
          clbits = op_clbits instruction;
          gate_name = upper (op_name instruction);
          count = str_nat (gate_counter w)
      in if gate_name = ''H'' then
           (let node_id = ''H'' @ count
            in link_first node_id qubits (add_node node_id ''H Gate'' w))
         else if gate_name \<in> set [''X'', ''Y'', ''Z''] then
           (let node_id = gate_name @ count
            in link_first node_id qubits (add_node node_id (gate_name @ '' Gate'') w))
         else if gate_name = ''CX'' \<or> gate_name = ''CNOT'' then
           (let node_id = ''CNOT'' @ count
            in link_pair node_id qubits (add_node node_id ''CNOT Gate'' w))
         else if gate_name = ''MEASURE'' then
           (let node_id = ''M'' @ count
            in link_measure node_id qubits clbits (add_node node_id ''Measure'' w))
         else if take 1 gate_name = ''R'' then
           (let params = op_params instruction;
                param_str = (if params \<noteq> [] then ''('' @ fmt_3f L (params ! 0) @ '')'' else []);
                node_id = gate_name @ count
            in link_all node_id qubits (add_node node_id (gate_name @ param_str) w))
         else if gate_name = ''SWAP'' then
           (let node_id = ''SWAP'' @ count
            in link_pair node_id qubits (add_node node_id ''SWAP Gate'' w))
         else
           (let node_id = gate_name @ count
            in link_all node_id qubits (add_node node_id (gate_name @ '' Gate'') w)))"

fun emit_all :: "library \<Rightarrow> instr list \<Rightarrow> walk \<Rightarrow> py_error + walk" where
  "emit_all L [] w = Inr w"
| "emit_all L (instruction # rest) w =
     (case emit_instruction L instruction w of
        Inl e \<Rightarrow> Inl e
      | Inr w' \<Rightarrow> emit_all L rest w')"

text \<open>\<^verbatim>\<open>for i in range(num_qubits)\<close> at the end: the final node of each qubit.\<close>

fun final_lines :: "(nat \<rightharpoonup> string) \<Rightarrow> nat list \<Rightarrow> py_error + string list" where
  "final_lines nodes [] = Inr []"
| "final_lines nodes (i # rest) =
     (case nodes i of
        None \<Rightarrow> Inl (KeyError (str_nat i))
      | Some src \<Rightarrow>
          (case final_lines nodes rest of
             Inl e \<Rightarrow> Inl e
           | Inr ls \<Rightarrow>
               Inr ([node_decl (final_node i) (''Q'' @ str_nat i @ '' Final''),
                     edge src (final_node i)] @ ls)))"

definition start_lines :: "nat \<Rightarrow> nat \<Rightarrow> string list" where
  "start_lines n m =
     [''flowchart TD'']
     @ map (\<lambda>i. node_decl (start_node i) (ket0 @ '' Q'' @ str_nat i)) [0..<n]
     @ map (\<lambda>i. node_decl (''C'' @ str_nat i @ ''_start'') (''0 C'' @ str_nat i)) [0..<m]"

definition styling :: "string list" where
  "styling =
     [[],
      ''    %% Styling'',
      ''    classDef qubitNode fill:#e1f5fe,stroke:#01579b,stroke-width:2px'',
      ''    classDef gateNode fill:#f3e5f5,stroke:#4a148c,stroke-width:2px'',
      ''    classDef measureNode fill:#fff3e0,stroke:#e65100,stroke-width:2px'',
      ''    classDef classicalNode fill:#e8f5e8,stroke:#1b5e20,stroke-width:2px'']"

text \<open>The lines of the diagram of a circuit, before they are joined.\<close>

definition diagram :: "library \<Rightarrow> circuit \<Rightarrow> py_error + string list" where
  "diagram L circuit =
     (let n = num_qubits circuit;
          w0 = \<lparr>mermaid_lines = start_lines n (num_clbits circuit),
                qubit_current_nodes = (\<lambda>i. if i < n then Some (start_node i) else None),
                gate_counter = 0\<rparr>
      in case emit_all L (data circuit) w0 of
           Inl e \<Rightarrow> Inl e
         | Inr w \<Rightarrow>
             (case final_lines (qubit_current_nodes w) [0..<n] of
                Inl e \<Rightarrow> Inl e
              | Inr finals \<Rightarrow> Inr (mermaid_lines w @ finals @ styling)))"

definition visualize_circuit_mermaid :: "library \<Rightarrow> state \<Rightarrow> string \<Rightarrow> state \<times> outcome" where
  "visualize_circuit_mermaid L s circuit_name =
     (case map_of (circuits s) circuit_name of
        None \<Rightarrow> (s, Returns (Text (''Circuit '' @ quoted circuit_name @ '' not found'')))
      | Some r \<Rightarrow>
          (case diagram L (heap s ! r) of
             Inl e \<Rightarrow> (s, Raises e)
           | Inr ls \<Rightarrow> (s, Returns (Text (join_lines ls)))))"

section \<open>A small library for running the tools\<close>

text \<open>
  The theorems below hold for every library. To run the tools on concrete inputs the
  examples use \<open>toy\<close>, a small stand-in that builds circuits the way the quantum
  library does for the calls the tools make: an index \<open>i\<close> selects a bit as Python
  indexing does (\<open>-n \<le> i < n\<close>, else the call raises), a two-qubit gate on twice the
  same qubit raises, and every gate appends one instruction. Its simulator, its
  optimizer, its reports and its number formats are simple placeholders.
\<close>

definition resolve :: "nat \<Rightarrow> int \<Rightarrow> py_error + nat" where
  "resolve n i =
     (if 0 \<le> i \<and> i < int n then Inr (nat i)
      else if - int n \<le> i \<and> i < 0 then Inr (nat (int n + i))
      else Inl (LibraryError (''Index '' @ str_int i @ '' out of range for size ''
                              @ str_nat n @ ''.'')))"

definition append_op :: "circuit \<Rightarrow> string \<Rightarrow> real list \<Rightarrow> nat list \<Rightarrow> nat list \<Rightarrow> circuit" where
  "append_op c name params qs cs =
     c\<lparr>data := data c @ [\<lparr>op_name = name, op_params = params, op_qubits = qs, op_clbits = cs\<rparr>]\<rparr>"

definition gate1 :: "string \<Rightarrow> real list \<Rightarrow> circuit \<Rightarrow> int \<Rightarrow> py_error + circuit" where
  "gate1 name params c q =
     (case resolve (num_qubits c) q of
        Inl e \<Rightarrow> Inl e
      | Inr a \<Rightarrow> Inr (append_op c name params [a] []))"

definition gate2 :: "string \<Rightarrow> real list \<Rightarrow> circuit \<Rightarrow> int \<Rightarrow> int \<Rightarrow> py_error + circuit" where
  "gate2 name params c q0 q1 =
     (case resolve (num_qubits c) q0 of
        Inl e \<Rightarrow> Inl e
      | Inr a \<Rightarrow>
          (case resolve (num_qubits c) q1 of
             Inl e \<Rightarrow> Inl e
           | Inr b \<Rightarrow>
               if a = b then Inl (LibraryError ''duplicate qubit arguments'')
               else Inr (append_op c name params [a, b] [])))"

definition toy_measure :: "circuit \<Rightarrow> int \<Rightarrow> int \<Rightarrow> py_error + circuit" where
  "toy_measure c q cb =
     (case resolve (num_qubits c) q of
        Inl e \<Rightarrow> Inl e
      | Inr a \<Rightarrow>
          (case resolve (num_clbits c) cb of
             Inl e \<Rightarrow> Inl e
           | Inr b \<Rightarrow> Inr (append_op c ''measure'' [] [a] [b])))"

text \<open>A barrier on all qubits, then qubit \<open>i\<close> measured into a new classical bit.\<close>

definition toy_measure_all :: "circuit \<Rightarrow> circuit" where
  "toy_measure_all c =
     (let n = num_qubits c; m = num_clbits c
      in c\<lparr>num_clbits := m + n,
           data := data c
             @ [\<lparr>op_name = ''barrier'', op_params = [], op_qubits = [0..<n], op_clbits = []\<rparr>]
             @ map (\<lambda>i. \<lparr>op_name = ''measure'', op_params = [], op_qubits = [i],
                         op_clbits = [m + i]\<rparr>) [0..<n]\<rparr>)"

fun toy_invoke :: "circuit \<Rightarrow> gate_call \<Rightarrow> py_error + circuit" where
  "toy_invoke c (Call_h q) = gate1 ''h'' [] c q"
| "toy_invoke c (Call_x q) = gate1 ''x'' [] c q"
| "toy_invoke c (Call_y q) = gate1 ''y'' [] c q"
| "toy_invoke c (Call_z q) = gate1 ''z'' [] c q"
| "toy_invoke c (Call_cx q0 q1) = gate2 ''cx'' [] c q0 q1"
| "toy_invoke c (Call_measure q cb) = toy_measure c q cb"
| "toy_invoke c Call_measure_all = Inr (toy_measure_all c)"
| "toy_invoke c (Call_rx a q) = gate1 ''rx'' [a] c q"
| "toy_invoke c (Call_ry a q) = gate1 ''ry'' [a] c q"
| "toy_invoke c (Call_rz a q) = gate1 ''rz'' [a] c q"
| "toy_invoke c (Call_rxx a q0 q1) = gate2 ''rxx'' [a] c q0 q1"
| "toy_invoke c (Call_ryy a q0 q1) = gate2 ''ryy'' [a] c q0 q1"
| "toy_invoke c (Call_rzz a q0 q1) = gate2 ''rzz'' [a] c q0 q1"
| "toy_invoke c (Call_u t p l q) = gate1 ''u'' [t, p, l] c q"
| "toy_invoke c (Call_swap q0 q1) = gate2 ''swap'' [] c q0 q1"
| "toy_invoke c (Call_s q) = gate1 ''s'' [] c q"
| "toy_invoke c (Call_sdg q) = gate1 ''sdg'' [] c q"
| "toy_invoke c (Call_t q) = gate1 ''t'' [] c q"
| "toy_invoke c (Call_tdg q) = gate1 ''tdg'' [] c q"

definition toy_new :: "int \<Rightarrow> int \<Rightarrow> py_error + circuit" where
  "toy_new n m =
     (if n < 0 \<or> m < 0 then Inl (LibraryError ''Register size must be non-negative'')
      else Inr \<lparr>num_qubits = nat n, num_clbits = nat m, data = []\<rparr>)"

text \<open>Instructions that are not barriers.\<close>

definition toy_size :: "circuit \<Rightarrow> nat" where
  "toy_size c = length (filter (\<lambda>i. op_name i \<noteq> ''barrier'') (data c))"

text \<open>Adjacent equal self-inverse gates cancel.\<close>

fun cancel_pairs :: "instr list \<Rightarrow> instr list" where
  "cancel_pairs (i # j # rest) =
     (if i = j \<and> op_name i \<in> set [''h'', ''x'', ''y'', ''z'', ''cx'']
      then cancel_pairs rest else i # cancel_pairs (j # rest))"
| "cancel_pairs is = is"

definition toy_optimize :: "circuit \<Rightarrow> py_error + circuit" where
  "toy_optimize c = Inr (c\<lparr>data := cancel_pairs (data c)\<rparr>)"

text \<open>The instructions without the measurements and barriers at the end.\<close>

definition toy_strip :: "circuit \<Rightarrow> py_error + circuit" where
  "toy_strip c =
     Inr (c\<lparr>data := rev (dropWhile (\<lambda>i. op_name i \<in> set [''measure'', ''barrier''])
                                    (rev (data c)))\<rparr>)"

text \<open>A run without measurements has no counts; otherwise every shot reads zeros.\<close>

definition toy_simulate :: "circuit \<Rightarrow> int \<Rightarrow> py_error + (string \<times> int) list" where
  "toy_simulate c shots =
     (if list_ex (\<lambda>i. op_name i = ''measure'') (data c)
      then Inr [(replicate (num_clbits c) CHR ''0'', shots)]
      else Inl (LibraryError ''No counts for experiment''))"

definition toy_report :: "string \<Rightarrow> circuit \<Rightarrow> circuit \<Rightarrow> py_error + json" where
  "toy_report name c stripped =
     Inr (JObj [(''circuit'', JStr name), (''num_qubits'', JInt (int (num_qubits c)))])"

text \<open>A number with three decimals.\<close>

definition fixed3 :: "real \<Rightarrow> string" where
  "fixed3 x =
     (let t = round (x * 1000); a = nat \<bar>t\<bar>; f = a mod 1000
      in (if t < 0 then ''-'' else []) @ str_nat (a div 1000) @ ''.''
         @ (if f < 10 then ''00'' else if f < 100 then ''0'' else []) @ str_nat f)"

definition toy :: library where
  "toy = \<lparr>new_circuit = toy_new,
          invoke = toy_invoke,
          simulate = toy_simulate,
          depth_of = toy_size,
          size_of = toy_size,
          width_of = (\<lambda>c. num_qubits c + num_clbits c),
          count_ops = (\<lambda>c. []),
          draw_text = (\<lambda>c. Inr (join_comma (map op_name (data c)))),
          remove_final_measurements = toy_strip,
          statevector_report = toy_report,
          density_report = toy_report,
          run_passes = toy_optimize,
          transpile3 = toy_optimize,
          fmt_num = fixed3,
          fmt_3f = fixed3,
          float_div = (\<lambda>a b. real_of_int a / real_of_int b),
          float_mul = (\<lambda>x y. x * y),
          round2 = (\<lambda>x. real_of_int (round (x * 100)) / 100)\<rparr>"

text \<open>Gate records, as a caller writes them.\<close>

definition gate_on :: "string \<Rightarrow> int list \<Rightarrow> gate_spec" where
  "gate_on kind qs = \<lparr>g_type = Some kind, g_qubits = Some qs, g_params = None, g_classical_bit = None\<rparr>"

definition gate_only :: "string \<Rightarrow> gate_spec" where
  "gate_only kind = \<lparr>g_type = Some kind, g_qubits = None, g_params = None, g_classical_bit = None\<rparr>"

text \<open>
  A registry with one circuit of two qubits and two classical bits named \<open>bell\<close>, as
  \<^verbatim>\<open>create_quantum_circuit(2, name="bell")\<close> leaves it.
\<close>

definition empty_state :: state where
  "empty_state = \<lparr>circuits = [], heap = []\<rparr>"

definition bell_state :: state where
  "bell_state = \<lparr>circuits = [(''bell'', 0)],
                 heap = [\<lparr>num_qubits = 2, num_clbits = 2, data = []\<rparr>]\<rparr>"

section \<open>Notions used in the statements\<close>

subsection \<open>Gate kinds\<close>

text \<open>\<^verbatim>\<open>gate.get('type', '').lower()\<close>, the kind the loop body dispatches on.\<close>

definition kind_of :: "gate_spec \<Rightarrow> string" where
  "kind_of gate = lower (case g_type gate of None \<Rightarrow> [] | Some t \<Rightarrow> t)"

text \<open>The kinds the branches of \<^verbatim>\<open>add_gates\<close> and of \<^verbatim>\<open>add_advanced_gates\<close> handle.\<close>

definition basic_kinds :: "string list" where
  "basic_kinds = [''h'', ''x'', ''y'', ''z'', ''cx'', ''measure'', ''measure_all'']"

definition advanced_kinds :: "string list" where
  "advanced_kinds = [''rx'', ''ry'', ''rz'', ''rxx'', ''ryy'', ''rzz'', ''u'', ''swap'',
                     ''s'', ''sdg'', ''t'', ''tdg'']"

subsection \<open>Sample registries\<close>

text \<open>The registry after \<open>op\<close> on qubit \<open>q\<close> was applied to \<open>bell\<close>.\<close>

definition bell_with :: "string \<Rightarrow> nat \<Rightarrow> state" where
  "bell_with op q =
     \<lparr>circuits = [(''bell'', 0)],
      heap = [\<lparr>num_qubits = 2, num_clbits = 2,
               data = [\<lparr>op_name = op, op_params = [], op_qubits = [q], op_clbits = []\<rparr>]\<rparr>]\<rparr>"



text \<open>
  A registry with the circuit \<open>xx\<close>: X twice on qubit 0, then a measurement. The toy
  optimizer cancels the two X gates.
\<close>

definition x_on_0 :: instr where
  "x_on_0 = \<lparr>op_name = ''x'', op_params = [], op_qubits = [0], op_clbits = []\<rparr>"

definition measure_0 :: instr where
  "measure_0 = \<lparr>op_name = ''measure'', op_params = [], op_qubits = [0], op_clbits = [0]\<rparr>"

definition xx_circuit :: circuit where
  "xx_circuit = \<lparr>num_qubits = 1, num_clbits = 1, data = [x_on_0, x_on_0, measure_0]\<rparr>"

definition xx_state :: state where
  "xx_state = \<lparr>circuits = [(''xx'', 0)], heap = [xx_circuit]\<rparr>"

definition xx_optimized :: circuit where
  "xx_optimized = \<lparr>num_qubits = 1, num_clbits = 1, data = [measure_0]\<rparr>"

subsection \<open>The name of an optimized circuit\<close>

text \<open>
  \<^verbatim>\<open>f"{circuit_name}_opt{optimization_level}_{str(uuid.uuid4())[:8]}"\<close>: the name under
  which \<^verbatim>\<open>optimize_circuit\<close> stores its result.
\<close>

definition optimized_name :: "string \<Rightarrow> int \<Rightarrow> string \<Rightarrow> string" where
  "optimized_name circuit_name optimization_level uuid =
     circuit_name @ ''_opt'' @ str_int optimization_level @ ''_'' @ take 8 uuid"

subsection \<open>The diagram, wire by wire\<close>

text \<open>
  The qubit wires an instruction is linked on: the branches for H, X, Y, Z and MEASURE
  use \<^verbatim>\<open>qubits[0]\<close>, those for CX, CNOT and SWAP use \<^verbatim>\<open>qubits[0]\<close> and
  \<^verbatim>\<open>qubits[1]\<close>, the rotation branch and the generic branch use every qubit.
\<close>

definition touched :: "instr \<Rightarrow> nat list" where
  "touched i =
     (let g = upper (op_name i)
      in if g \<in> set [''H'', ''X'', ''Y'', ''Z'', ''MEASURE''] then take 1 (op_qubits i)
         else if g \<in> set [''CX'', ''CNOT'', ''SWAP''] then take 2 (op_qubits i)
         else op_qubits i)"

text \<open>How many qubits the branch of an instruction indexes.\<close>

definition needed :: "instr \<Rightarrow> nat" where
  "needed i =
     (let g = upper (op_name i)
      in if g \<in> set [''H'', ''X'', ''Y'', ''Z'', ''MEASURE''] then 1
         else if g \<in> set [''CX'', ''CNOT'', ''SWAP''] then 2
         else 0)"

text \<open>
  Circuits as the library builds them: an instruction acts on distinct qubits of the
  circuit, and on as many as its gate has.
\<close>

definition wf_instr :: "nat \<Rightarrow> instr \<Rightarrow> bool" where
  "wf_instr n i =
     (needed i \<le> length (op_qubits i) \<and> distinct (op_qubits i)
      \<and> list_all (\<lambda>q. q < n) (op_qubits i))"

definition wf_circuit :: "circuit \<Rightarrow> bool" where
  "wf_circuit c = list_all (wf_instr (num_qubits c)) (data c)"

text \<open>The node of the \<open>k\<close>-th instruction and its label.\<close>

definition node_of :: "nat \<Rightarrow> instr \<Rightarrow> string" where
  "node_of k i =
     (let g = upper (op_name i)
      in (if g = ''CX'' \<or> g = ''CNOT'' then ''CNOT''
          else if g = ''MEASURE'' then ''M''
          else g) @ str_nat k)"

definition label_of :: "library \<Rightarrow> instr \<Rightarrow> string" where
  "label_of L i =
     (let g = upper (op_name i)
      in if g = ''CX'' \<or> g = ''CNOT'' then ''CNOT Gate''
         else if g = ''MEASURE'' then ''Measure''
         else if take 1 g = ''R''
         then g @ (if op_params i \<noteq> [] then ''('' @ fmt_3f L (op_params i ! 0) @ '')'' else [])
         else g @ '' Gate'')"

text \<open>
  The most recently emitted node on the wire of qubit \<open>q\<close>: the node of the last of the
  numbered instructions \<open>ops\<close> that touches \<open>q\<close>, and \<open>init q\<close> when none does.
\<close>

definition latest :: "(nat \<Rightarrow> string) \<Rightarrow> (nat \<times> instr) list \<Rightarrow> nat \<Rightarrow> string" where
  "latest init ops q =
     (case filter (\<lambda>(k, i). q \<in> set (touched i)) ops of
        [] \<Rightarrow> init q
      | x # xs \<Rightarrow> (case last (x # xs) of (k, i) \<Rightarrow> node_of k i))"

definition last_node :: "(nat \<times> instr) list \<Rightarrow> nat \<Rightarrow> string" where
  "last_node ops q = latest start_node ops q"

text \<open>The instructions with their numbers, \<open>k + 1\<close> for the first.\<close>

definition numbered_from :: "nat \<Rightarrow> instr list \<Rightarrow> (nat \<times> instr) list" where
  "numbered_from k is = zip [Suc k..<Suc k + length is] is"

text \<open>
  The lines of instruction number \<open>k\<close>: its node, one edge into it from the node \<open>src q\<close>
  of every touched qubit \<open>q\<close>, and for a measurement with a classical bit the edge
  from the node to a node named after that bit and \<open>k\<close>.
\<close>

definition instr_lines :: "library \<Rightarrow> (nat \<Rightarrow> string) \<Rightarrow> nat \<Rightarrow> instr \<Rightarrow> string list" where
  "instr_lines L src k i =
     node_decl (node_of k i) (label_of L i)
     # map (\<lambda>q. edge (src q) (node_of k i)) (touched i)
     @ (if upper (op_name i) = ''MEASURE'' \<and> op_clbits i \<noteq> []
        then [edge (node_of k i) (''C'' @ str_nat (op_clbits i ! 0) @ ''_end'' @ str_nat k)]
        else [])"

text \<open>The lines of the terminal node of qubit \<open>q\<close>.\<close>

definition terminal_lines :: "(nat \<Rightarrow> string) \<Rightarrow> nat \<Rightarrow> string list" where
  "terminal_lines src q =
     [node_decl (final_node q) (''Q'' @ str_nat q @ '' Final''), edge (src q) (final_node q)]"

text \<open>The dictionary of the walk agrees with \<open>cur\<close> on the qubits of the circuit.\<close>

definition tracks :: "nat \<Rightarrow> (nat \<Rightarrow> string) \<Rightarrow> walk \<Rightarrow> bool" where
  "tracks n cur w = (\<forall>q<n. qubit_current_nodes w q = Some (cur q))"

subsection \<open>Sample circuits and their diagrams\<close>

text \<open>
  A circuit of two qubits and one classical bit: H on qubit 0, CX from 0 to 1, RX on
  qubit 1, and both qubits measured into bit 0.
\<close>

definition sample_circuit :: circuit where
  "sample_circuit =
     \<lparr>num_qubits = 2, num_clbits = 1,
      data = [\<lparr>op_name = ''h'', op_params = [], op_qubits = [0], op_clbits = []\<rparr>,
              \<lparr>op_name = ''cx'', op_params = [], op_qubits = [0, 1], op_clbits = []\<rparr>,
              \<lparr>op_name = ''rx'', op_params = [3 / 2], op_qubits = [1], op_clbits = []\<rparr>,
              \<lparr>op_name = ''measure'', op_params = [], op_qubits = [0], op_clbits = [0]\<rparr>,
              \<lparr>op_name = ''measure'', op_params = [], op_qubits = [1], op_clbits = [0]\<rparr>]\<rparr>"

definition sample_lines :: "string list" where
  "sample_lines =
     [''flowchart TD'',
      ''    Q0_start['' @ ket0 @ '' Q0]'',
      ''    Q1_start['' @ ket0 @ '' Q1]'',
      ''    C0_start[0 C0]'',
      ''    H1[H Gate]'',
      ''    Q0_start --> H1'',
      ''    CNOT2[CNOT Gate]'',
      ''    H1 --> CNOT2'',
      ''    Q1_start --> CNOT2'',
      ''    RX3[RX(1.500)]'',
      ''    CNOT2 --> RX3'',
      ''    M4[Measure]'',
      ''    CNOT2 --> M4'',
      ''    M4 --> C0_end4'',
      ''    M5[Measure]'',
      ''    RX3 --> M5'',
      ''    M5 --> C0_end5'',
      ''    Q0_final[Q0 Final]'',
      ''    M4 --> Q0_final'',
      ''    Q1_final[Q1 Final]'',
      ''    M5 --> Q1_final'']
     @ styling"

text \<open>Two qubits measured into the same classical bit, and the diagram of that circuit.\<close>

definition two_measures :: circuit where
  "two_measures =
     \<lparr>num_qubits = 2, num_clbits = 1,
      data = [\<lparr>op_name = ''measure'', op_params = [], op_qubits = [0], op_clbits = [0]\<rparr>,
              \<lparr>op_name = ''measure'', op_params = [], op_qubits = [1], op_clbits = [0]\<rparr>]\<rparr>"

definition two_measures_lines :: "string list" where
  "two_measures_lines =
     [''flowchart TD'',
      ''    Q0_start['' @ ket0 @ '' Q0]'',
      ''    Q1_start['' @ ket0 @ '' Q1]'',
      ''    C0_start[0 C0]'',
      ''    M1[Measure]'',
      ''    Q0_start --> M1'',
      ''    M1 --> C0_end1'',
      ''    M2[Measure]'',
      ''    Q1_start --> M2'',
      ''    M2 --> C0_end2'',
      ''    Q0_final[Q0 Final]'',
      ''    M1 --> Q0_final'',
      ''    Q1_final[Q1 Final]'',
      ''    M2 --> Q1_final'']
     @ styling"

section \<open>Unknown circuit names\<close>

lemma not_in_keys: "name \<notin> fst ` set al \<Longrightarrow> map_of al name = None"
  by (simp add: map_of_eq_None_iff)

text \<open>
  Claim C3. Each of the nine tools that take a circuit name, called with a name that
  is not a key of the registry, returns a text that says the circuit was not found and
  names it; nothing is raised and the state (registry and objects) is the one before
  the call.
\<close>

theorem unknown_circuit_not_found:
  assumes "circuit_name \<notin> fst ` set (circuits s)"
  shows "add_gates L s circuit_name gates
           = (s, Returns (Text (''Circuit '' @ quoted circuit_name @ '' not found. Create it first.'')))
       \<and> add_advanced_gates L s circuit_name gates
           = (s, Returns (Text (''Circuit '' @ quoted circuit_name @ '' not found. Create it first.'')))
       \<and> run_circuit L s circuit_name shots
           = (s, Returns (Text (''Circuit '' @ quoted circuit_name @ '' not found'')))
       \<and> get_circuit_info L s circuit_name
           = (s, Returns (Text (''Circuit '' @ quoted circuit_name @ '' not found'')))
       \<and> visualize_circuit L s circuit_name
           = (s, Returns (Text (''Circuit '' @ quoted circuit_name @ '' not found'')))
       \<and> visualize_circuit_mermaid L s circuit_name
           = (s, Returns (Text (''Circuit '' @ quoted circuit_name @ '' not found'')))
       \<and> analyze_statevector L s circuit_name
           = (s, Returns (Text (''Circuit '' @ quoted circuit_name @ '' not found'')))
       \<and> compute_density_matrix L s circuit_name
           = (s, Returns (Text (''Circuit '' @ quoted circuit_name @ '' not found'')))
       \<and> optimize_circuit L uuid s circuit_name optimization_level
           = (s, Returns (Text (''Circuit '' @ quoted circuit_name @ '' not found'')))"
proof -
  from assms have none: "map_of (circuits s) circuit_name = None"
    by (rule not_in_keys)
  show ?thesis
    by (simp add: none add_gates_def add_advanced_gates_def run_circuit_def get_circuit_info_def
        visualize_circuit_def visualize_circuit_mermaid_def analyze_statevector_def
        compute_density_matrix_def optimize_circuit_def)
qed

text \<open>The nine tools asked for \<open>ghost\<close> in a registry that only has \<open>bell\<close>.\<close>

theorem unknown_circuit_not_found_witness:
  "''ghost'' \<notin> fst ` set (circuits bell_state)
   \<and> add_gates toy bell_state ''ghost'' [gate_on ''h'' [0]]
        = (bell_state, Returns (Text ''Circuit 'ghost' not found. Create it first.''))
   \<and> add_advanced_gates toy bell_state ''ghost'' [gate_on ''s'' [0]]
        = (bell_state, Returns (Text ''Circuit 'ghost' not found. Create it first.''))
   \<and> run_circuit toy bell_state ''ghost'' 1000
        = (bell_state, Returns (Text ''Circuit 'ghost' not found''))
   \<and> get_circuit_info toy bell_state ''ghost''
        = (bell_state, Returns (Text ''Circuit 'ghost' not found''))
   \<and> visualize_circuit toy bell_state ''ghost''
        = (bell_state, Returns (Text ''Circuit 'ghost' not found''))
   \<and> visualize_circuit_mermaid toy bell_state ''ghost''
        = (bell_state, Returns (Text ''Circuit 'ghost' not found''))
   \<and> analyze_statevector toy bell_state ''ghost''
        = (bell_state, Returns (Text ''Circuit 'ghost' not found''))
   \<and> compute_density_matrix toy bell_state ''ghost''
        = (bell_state, Returns (Text ''Circuit 'ghost' not found''))
   \<and> optimize_circuit toy ''0f8fad5b-d9cb-469f-a165-70867728950e'' bell_state ''ghost'' 1
        = (bell_state, Returns (Text ''Circuit 'ghost' not found''))"
proof -
  have h: "''ghost'' \<notin> fst ` set (circuits bell_state)"
    by (simp add: bell_state_def)
  show ?thesis
    using h unknown_circuit_not_found [OF h, of toy "[gate_on ''h'' [0]]" 1000
        "''0f8fad5b-d9cb-469f-a165-70867728950e''" 1]
      unknown_circuit_not_found [OF h, of toy "[gate_on ''s'' [0]]" 0 "[]" 0]
    by (simp add: quoted_def)
qed

section \<open>Optimization levels\<close>

text \<open>
  Claim C5. \<^verbatim>\<open>optimize_circuit\<close> on a registered circuit with a level that is not one
  of 0, 1, 2, 3 returns the validation message; nothing is raised and the state is the
  one before the call, so the registry has no new entry.
\<close>

theorem invalid_level_rejected:
  assumes "map_of (circuits s) circuit_name = Some r"
    and "optimization_level \<notin> {0, 1, 2, 3}"
  shows "optimize_circuit L uuid s circuit_name optimization_level
           = (s, Returns (Text ''Optimization level must be 0, 1, 2, or 3''))"
  using assms by (simp add: optimize_circuit_def)

theorem invalid_level_rejected_witness:
  "map_of (circuits bell_state) ''bell'' = Some 0
   \<and> (4::int) \<notin> {0, 1, 2, 3}
   \<and> optimize_circuit toy ''0f8fad5b-d9cb-469f-a165-70867728950e'' bell_state ''bell'' 4
        = (bell_state, Returns (Text ''Optimization level must be 0, 1, 2, or 3''))"
proof -
  have a: "map_of (circuits bell_state) ''bell'' = Some 0"
    by (simp add: bell_state_def)
  have b: "(4::int) \<notin> {0, 1, 2, 3}" by simp
  show ?thesis
    using a b invalid_level_rejected [OF a b] by simp
qed

section \<open>Exceptions at the tool boundary\<close>

text \<open>
  \<^verbatim>\<open>add_gates\<close> and \<^verbatim>\<open>run_circuit\<close> have no \<^verbatim>\<open>try\<close>: what the loop body or the backend
  raises leaves the tool, whatever the library.
\<close>

lemma add_gates_raises:
  assumes "map_of (circuits s) circuit_name = Some r"
    and "basic_gate L (heap s ! r) gate = Failed e"
  shows "add_gates L s circuit_name (gate # gates) = (s, Raises e)"
  using assms by (simp add: add_gates_def)

lemma missing_qubits_fail:
  assumes "lower t \<in> set [''h'', ''x'', ''y'', ''z'', ''cx'', ''measure'']"
  shows "basic_gate L c \<lparr>g_type = Some t, g_qubits = None, g_params = ps, g_classical_bit = cb\<rparr>
           = Failed IndexError"
  using assms by (auto simp: basic_gate_def on_qubit_def on_qubits_def py_index_def)

lemma run_circuit_raises:
  assumes "map_of (circuits s) circuit_name = Some r"
    and "simulate L (heap s ! r) shots = Inl e"
  shows "run_circuit L s circuit_name shots = (s, Raises e)"
  using assms by (simp add: run_circuit_def)

text \<open>
  The tools that wrap their work in \<^verbatim>\<open>try ... except Exception\<close> return on every input:
  \<^verbatim>\<open>add_advanced_gates\<close> a text, \<^verbatim>\<open>optimize_circuit\<close> a text or its JSON result.
\<close>

lemma add_advanced_gates_returns:
  "\<exists>t. snd (add_advanced_gates L s circuit_name gates) = Returns (Text t)"
  by (auto simp: add_advanced_gates_def split: option.splits prod.splits loop_end.splits)

lemma optimize_circuit_returns:
  "\<exists>reply. snd (optimize_circuit L uuid s circuit_name optimization_level) = Returns reply"
  by (auto simp: optimize_circuit_def alloc_def Let_def improvement_percentage_def py_truediv_def
      split: option.splits sum.splits)

text \<open>
  Claim C1. The claim says that \<^verbatim>\<open>add_gates\<close> on an existing circuit with a gate record
  that has no qubit list returns an error text. The call
  \<^verbatim>\<open>add_gates("bell", [{"type": "h"}])\<close> raises \<^verbatim>\<open>IndexError\<close> instead: \<^verbatim>\<open>qubits\<close> is
  \<^verbatim>\<open>gate.get('qubits', [])\<close>, the empty list, and \<^verbatim>\<open>qubits[0]\<close> is evaluated outside any
  \<^verbatim>\<open>try\<close>.
\<close>

theorem add_gates_missing_qubits_raises:
  "add_gates toy bell_state ''bell'' [gate_only ''h''] = (bell_state, Raises IndexError)"
  by (simp add: add_gates_def bell_state_def gate_only_def basic_gate_def on_qubit_def
      py_index_def lower_def lower_char_def)

section \<open>Requested names that are taken\<close>

text \<open>
  The loop entered with a name that is taken ends with the first suffix, counting from
  \<open>counter\<close>, that is free.
\<close>

lemma unique_name_spec:
  "name \<in> set keys \<Longrightarrow>
   \<exists>k\<ge>counter. unique_name keys original_name name counter = suffixed original_name k
      \<and> suffixed original_name k \<notin> set keys
      \<and> (\<forall>j. counter \<le> j \<and> j < k \<longrightarrow> suffixed original_name j \<in> set keys)"
proof (induction keys original_name name counter rule: unique_name.induct)
  case (1 keys original_name name counter)
  show ?case
  proof (cases "suffixed original_name counter \<in> set keys")
    case False
    with "1.prems" have "unique_name keys original_name name counter = suffixed original_name counter"
      by (simp add: unique_name.simps [of keys original_name name]
          unique_name.simps [of keys original_name "suffixed original_name counter"])
    with False show ?thesis by auto
  next
    case True
    from "1.IH" [OF "1.prems" True] obtain k where k: "counter + 1 \<le> k"
      and eq: "unique_name keys original_name (suffixed original_name counter) (counter + 1)
                 = suffixed original_name k"
      and fresh: "suffixed original_name k \<notin> set keys"
      and below: "\<forall>j. counter + 1 \<le> j \<and> j < k \<longrightarrow> suffixed original_name j \<in> set keys"
      by blast
    from "1.prems" eq have "unique_name keys original_name name counter = suffixed original_name k"
      by (simp add: unique_name.simps [of keys original_name name])
    moreover have "\<forall>j. counter \<le> j \<and> j < k \<longrightarrow> suffixed original_name j \<in> set keys"
    proof (intro allI impI)
      fix j assume "counter \<le> j \<and> j < k"
      then consider "j = counter" | "counter + 1 \<le> j \<and> j < k" by linarith
      then show "suffixed original_name j \<in> set keys"
        using True below by cases auto
    qed
    ultimately show ?thesis using k fresh by (intro exI [of _ k]) auto
  qed
qed

text \<open>Storing under a key the dictionary does not have adds the entry at the end.\<close>

lemma update_fresh: "k \<notin> fst ` set al \<Longrightarrow> AList.update k v al = al @ [(k, v)]"
  by (induction al) auto

text \<open>
  Claim C2. \<^verbatim>\<open>create_quantum_circuit\<close> with a requested name that is a key of the
  registry, when the library builds the circuit, stores it under the requested name
  followed by \<open>_k\<close>, where \<open>k \<ge> 1\<close> is the first counter whose name is free (the names
  for \<open>1, ..., k - 1\<close> are taken). The registry is the old one with the new entry at
  its end and the store is the old one with the new object at its end: no entry is
  overwritten and no circuit changes.
\<close>

theorem taken_name_gets_suffix:
  assumes "original_name \<in> fst ` set (circuits s)"
    and "new_circuit L n_qubits (case num_classical_bits of None \<Rightarrow> n_qubits | Some m \<Rightarrow> m)
           = Inr circuit"
  shows "\<exists>k\<ge>1.
           original_name @ ''_'' @ str_nat k \<notin> fst ` set (circuits s)
         \<and> (\<forall>j. 1 \<le> j \<and> j < k \<longrightarrow> original_name @ ''_'' @ str_nat j \<in> fst ` set (circuits s))
         \<and> create_quantum_circuit L timestamp uuid s n_qubits num_classical_bits (Some original_name)
             = (\<lparr>circuits = circuits s @ [(original_name @ ''_'' @ str_nat k, length (heap s))],
                 heap = heap s @ [circuit]\<rparr>,
                Returns (Text (''Created quantum circuit '' @ quoted (original_name @ ''_'' @ str_nat k)
                  @ '' with '' @ str_int n_qubits @ '' qubits and ''
                  @ str_int (case num_classical_bits of None \<Rightarrow> n_qubits | Some m \<Rightarrow> m)
                  @ '' classical bits'')))"
proof -
  let ?keys = "map fst (circuits s)"
  let ?name = "\<lambda>k. original_name @ ''_'' @ str_nat k"
  from assms(1) have "original_name \<in> set ?keys" by simp
  from unique_name_spec [OF this, of 1 original_name]
  obtain k where k: "1 \<le> k"
    and eq: "unique_name ?keys original_name original_name 1 = ?name k"
    and fresh: "?name k \<notin> set ?keys"
    and below: "\<forall>j. 1 \<le> j \<and> j < k \<longrightarrow> ?name j \<in> set ?keys"
    unfolding suffixed_def by blast
  from fresh have fresh': "?name k \<notin> fst ` set (circuits s)" by simp
  have "create_quantum_circuit L timestamp uuid s n_qubits num_classical_bits (Some original_name)
             = (\<lparr>circuits = circuits s @ [(?name k, length (heap s))],
                 heap = heap s @ [circuit]\<rparr>,
                Returns (Text (''Created quantum circuit '' @ quoted (?name k)
                  @ '' with '' @ str_int n_qubits @ '' qubits and ''
                  @ str_int (case num_classical_bits of None \<Rightarrow> n_qubits | Some m \<Rightarrow> m)
                  @ '' classical bits'')))"
    using assms(2) eq update_fresh [OF fresh']
    by (simp add: create_quantum_circuit_def alloc_def bind_name_def Let_def)
  with k fresh' below show ?thesis
    by (intro exI [of _ k]) simp
qed

text \<open>
  A second \<open>bell\<close> of three qubits, asked for in the registry that has \<open>bell\<close>: it is
  stored under \<open>bell_1\<close>, after the entry of \<open>bell\<close>, which keeps its reference and its
  circuit.
\<close>

theorem taken_name_gets_suffix_witness:
  "''bell'' \<in> fst ` set (circuits bell_state)
   \<and> new_circuit toy 3 (case None of None \<Rightarrow> 3 | Some m \<Rightarrow> m)
        = Inr \<lparr>num_qubits = 3, num_clbits = 3, data = []\<rparr>
   \<and> create_quantum_circuit toy 1700000000000 ''0f8fad5b-d9cb-469f-a165-70867728950e''
         bell_state 3 None (Some ''bell'')
        = (\<lparr>circuits = [(''bell'', 0), (''bell_1'', 1)],
            heap = [\<lparr>num_qubits = 2, num_clbits = 2, data = []\<rparr>,
                    \<lparr>num_qubits = 3, num_clbits = 3, data = []\<rparr>]\<rparr>,
           Returns (Text ''Created quantum circuit 'bell_1' with 3 qubits and 3 classical bits''))"
proof -
  let ?new = "\<lparr>num_qubits = 3, num_clbits = 3, data = []\<rparr>"
  have a: "''bell'' \<in> fst ` set (circuits bell_state)"
    by (simp add: bell_state_def)
  have b: "new_circuit toy 3 (case None of None \<Rightarrow> 3 | Some m \<Rightarrow> m) = Inr ?new"
    by (simp add: toy_def toy_new_def)
  from taken_name_gets_suffix [OF a b, of 1700000000000 "''0f8fad5b-d9cb-469f-a165-70867728950e''"]
  obtain k where k: "1 \<le> k"
    and below: "\<forall>j. 1 \<le> j \<and> j < k \<longrightarrow> ''bell'' @ ''_'' @ str_nat j \<in> fst ` set (circuits bell_state)"
    and run: "create_quantum_circuit toy 1700000000000 ''0f8fad5b-d9cb-469f-a165-70867728950e''
                bell_state 3 None (Some ''bell'')
              = (\<lparr>circuits = circuits bell_state @ [(''bell'' @ ''_'' @ str_nat k, length (heap bell_state))],
                  heap = heap bell_state @ [?new]\<rparr>,
                 Returns (Text (''Created quantum circuit '' @ quoted (''bell'' @ ''_'' @ str_nat k)
                   @ '' with '' @ str_int 3 @ '' qubits and ''
                   @ str_int (case None of None \<Rightarrow> 3 | Some m \<Rightarrow> m)
                   @ '' classical bits'')))"
    by blast
  have free: "''bell'' @ ''_'' @ str_nat 1 \<notin> fst ` set (circuits bell_state)"
    by code_simp
  have k1: "k = 1"
  proof (rule ccontr)
    assume "k \<noteq> 1"
    with k have "1 \<le> (1::nat) \<and> 1 < k" by simp
    with below have "''bell'' @ ''_'' @ str_nat 1 \<in> fst ` set (circuits bell_state)"
      by blast
    with free show False by contradiction
  qed
  have lit: "(\<lparr>circuits = circuits bell_state @ [(''bell'' @ ''_'' @ str_nat 1, length (heap bell_state))],
                  heap = heap bell_state @ [?new]\<rparr>,
                 Returns (Text (''Created quantum circuit '' @ quoted (''bell'' @ ''_'' @ str_nat 1)
                   @ '' with '' @ str_int 3 @ '' qubits and ''
                   @ str_int (case None of None \<Rightarrow> 3 | Some m \<Rightarrow> m)
                   @ '' classical bits'')))
        = (\<lparr>circuits = [(''bell'', 0), (''bell_1'', 1)],
            heap = [\<lparr>num_qubits = 2, num_clbits = 2, data = []\<rparr>, ?new]\<rparr>,
           Returns (Text ''Created quantum circuit 'bell_1' with 3 qubits and 3 classical bits''))"
    by code_simp
  note run [unfolded k1]
  also note lit
  finally have "create_quantum_circuit toy 1700000000000 ''0f8fad5b-d9cb-469f-a165-70867728950e''
         bell_state 3 None (Some ''bell'')
        = (\<lparr>circuits = [(''bell'', 0), (''bell_1'', 1)],
            heap = [\<lparr>num_qubits = 2, num_clbits = 2, data = []\<rparr>, ?new]\<rparr>,
           Returns (Text ''Created quantum circuit 'bell_1' with 3 qubits and 3 classical bits''))" .
  with a b show ?thesis by blast
qed

text \<open>The same call, run: the second \<open>bell\<close> becomes \<open>bell_1\<close>.\<close>

lemma create_bell_again:
  "create_quantum_circuit toy 1700000000000 ''0f8fad5b-d9cb-469f-a165-70867728950e''
       bell_state 3 None (Some ''bell'')
     = (\<lparr>circuits = [(''bell'', 0), (''bell_1'', 1)],
         heap = [\<lparr>num_qubits = 2, num_clbits = 2, data = []\<rparr>,
                 \<lparr>num_qubits = 3, num_clbits = 3, data = []\<rparr>]\<rparr>,
        Returns (Text ''Created quantum circuit 'bell_1' with 3 qubits and 3 classical bits''))"
  by code_simp

section \<open>Gate batches\<close>

lemma basic_gate_unsupported:
  "kind_of gate \<notin> set basic_kinds \<Longrightarrow>
   basic_gate L c gate = Unsupported (''Unsupported gate type: '' @ kind_of gate)"
  by (simp add: basic_gate_def kind_of_def basic_kinds_def Let_def)

lemma advanced_gate_unsupported:
  "kind_of gate \<notin> set advanced_kinds \<Longrightarrow>
   advanced_gate L c gate = Unsupported (''Unsupported advanced gate type: '' @ kind_of gate)"
  by (simp add: advanced_gate_def kind_of_def advanced_kinds_def Let_def)

text \<open>A loop that ran through a prefix goes on with the rest from the state it reached.\<close>

lemma gates_loop_append:
  "gates_loop body s r pre applied = (s1, Finished applied1) \<Longrightarrow>
   gates_loop body s r (pre @ rest) applied = gates_loop body s1 r rest applied1"
  by (induction pre arbitrary: s applied) (auto split: step.splits)

lemma gates_loop_stops:
  assumes "gates_loop body s r pre [] = (s1, Finished applied)"
    and "body (heap s1 ! r) gate = Unsupported m"
  shows "gates_loop body s r (pre @ gate # post) [] = (s1, Stopped m)"
  using gates_loop_append [OF assms(1), of "gate # post"] assms(2) by simp

text \<open>The loop touches the object at \<open>r\<close> only, and never the dictionary.\<close>

lemma gates_loop_frame:
  "gates_loop body s r gates applied = (s1, e) \<Longrightarrow>
   circuits s1 = circuits s \<and> length (heap s1) = length (heap s)
   \<and> (\<forall>r'. r' \<noteq> r \<longrightarrow> heap s1 ! r' = heap s ! r')"
  by (induction gates arbitrary: s applied) (auto simp: mutate_def split: step.splits)

text \<open>
  Claim C4, as the code has it. On a registered circuit, let the gates before the
  first unrecognized kind all be applied (the loop over them alone runs through and
  reaches a state). Then the batch stops at the unrecognized kind: the tool
  returns the text that names the kind, lower-cased, and the state is that state, so the
  earlier gates stay applied to the named circuit and nothing of the gates at or after
  the unrecognized one is applied. This holds for \<^verbatim>\<open>add_gates\<close> and for
  \<^verbatim>\<open>add_advanced_gates\<close>.
\<close>

theorem unsupported_kind_stops_batch:
  assumes "map_of (circuits s) circuit_name = Some r"
  shows "(gates_loop (basic_gate L) s r pre [] = (after_basic, Finished applied_basic)
            \<and> kind_of gate \<notin> set basic_kinds
          \<longrightarrow> add_gates L s circuit_name (pre @ gate # post)
                = (after_basic, Returns (Text (''Unsupported gate type: '' @ kind_of gate))))
       \<and> (gates_loop (advanced_gate L) s r pre [] = (after_advanced, Finished applied_advanced)
            \<and> kind_of gate \<notin> set advanced_kinds
          \<longrightarrow> add_advanced_gates L s circuit_name (pre @ gate # post)
                = (after_advanced, Returns (Text (''Unsupported advanced gate type: '' @ kind_of gate))))"
  using assms
  by (auto simp: add_gates_def add_advanced_gates_def gates_loop_stops
      basic_gate_unsupported advanced_gate_unsupported)

theorem unsupported_kind_stops_batch_witness:
  "map_of (circuits bell_state) ''bell'' = Some 0
   \<and> gates_loop (basic_gate toy) bell_state 0 [gate_on ''h'' [0]] []
        = (bell_with ''h'' 0, Finished [''H gate on qubit 0''])
   \<and> kind_of (gate_on ''Bogus'' [0]) \<notin> set basic_kinds
   \<and> add_gates toy bell_state ''bell'' ([gate_on ''h'' [0]] @ gate_on ''Bogus'' [0] # [gate_on ''x'' [1]])
        = (bell_with ''h'' 0, Returns (Text (''Unsupported gate type: '' @ kind_of (gate_on ''Bogus'' [0]))))
   \<and> gates_loop (advanced_gate toy) bell_state 0 [gate_on ''t'' [1]] []
        = (bell_with ''t'' 1, Finished [''T gate on qubit 1''])
   \<and> kind_of (gate_on ''Bogus'' [0]) \<notin> set advanced_kinds
   \<and> add_advanced_gates toy bell_state ''bell'' ([gate_on ''t'' [1]] @ gate_on ''Bogus'' [0] # [gate_on ''s'' [1]])
        = (bell_with ''t'' 1, Returns (Text (''Unsupported advanced gate type: '' @ kind_of (gate_on ''Bogus'' [0]))))"
proof -
  have a: "map_of (circuits bell_state) ''bell'' = Some 0"
    by (simp add: bell_state_def)
  have b: "gates_loop (basic_gate toy) bell_state 0 [gate_on ''h'' [0]] []
        = (bell_with ''h'' 0, Finished [''H gate on qubit 0''])"
    by code_simp
  have c: "kind_of (gate_on ''Bogus'' [0]) \<notin> set basic_kinds"
    by code_simp
  have d: "gates_loop (advanced_gate toy) bell_state 0 [gate_on ''t'' [1]] []
        = (bell_with ''t'' 1, Finished [''T gate on qubit 1''])"
    by code_simp
  have e: "kind_of (gate_on ''Bogus'' [0]) \<notin> set advanced_kinds"
    by code_simp
  from unsupported_kind_stops_batch [OF a, where L = toy and pre = "[gate_on ''h'' [0]]"
      and after_basic = "bell_with ''h'' 0" and applied_basic = "[''H gate on qubit 0'']"
      and gate = "gate_on ''Bogus'' [0]" and post = "[gate_on ''x'' [1]]"] b c
  have f: "add_gates toy bell_state ''bell'' ([gate_on ''h'' [0]] @ gate_on ''Bogus'' [0] # [gate_on ''x'' [1]])
        = (bell_with ''h'' 0, Returns (Text (''Unsupported gate type: '' @ kind_of (gate_on ''Bogus'' [0]))))"
    by blast
  from unsupported_kind_stops_batch [OF a, where L = toy and pre = "[gate_on ''t'' [1]]"
      and after_advanced = "bell_with ''t'' 1" and applied_advanced = "[''T gate on qubit 1'']"
      and gate = "gate_on ''Bogus'' [0]" and post = "[gate_on ''s'' [1]]"] d e
  have g: "add_advanced_gates toy bell_state ''bell'' ([gate_on ''t'' [1]] @ gate_on ''Bogus'' [0] # [gate_on ''s'' [1]])
        = (bell_with ''t'' 1, Returns (Text (''Unsupported advanced gate type: '' @ kind_of (gate_on ''Bogus'' [0]))))"
    by blast
  from a b c d e f g show ?thesis by blast
qed

text \<open>The same batch, run: the H stays, the X after the unknown kind is not applied.\<close>

lemma bogus_after_h:
  "add_gates toy bell_state ''bell'' [gate_on ''h'' [0], gate_on ''Bogus'' [0], gate_on ''x'' [1]]
     = (bell_with ''h'' 0, Returns (Text ''Unsupported gate type: bogus''))"
  by code_simp

text \<open>
  Claim C4 as stated fails when a gate before the unrecognized kind fails first. In
  \<^verbatim>\<open>add_advanced_gates("bell", [{"type": "rx"}, {"type": "bogus", "qubits": [0]}])\<close>
  the first record has no qubit list, \<^verbatim>\<open>qubits[0]\<close> raises inside the \<^verbatim>\<open>try\<close>, and the
  tool returns the text of that error: the loop never reaches \<open>bogus\<close> and the text
  does not name the unsupported kind.
\<close>

theorem failure_before_unsupported_kind:
  "add_advanced_gates toy bell_state ''bell'' [gate_only ''rx'', gate_on ''bogus'' [0]]
     = (bell_state, Returns (Text ''Error adding advanced gates to 'bell': list index out of range''))
   \<and> snd (add_advanced_gates toy bell_state ''bell'' [gate_only ''rx'', gate_on ''bogus'' [0]])
     \<noteq> Returns (Text ''Unsupported advanced gate type: bogus'')"
  by code_simp

section \<open>The classical bit of a measurement\<close>



section \<open>Listing the registry\<close>

text \<open>
  Claim C9, as the code has it. For every registry that is not empty,
  \<^verbatim>\<open>list_circuits\<close> returns a JSON object whose keys are the registered names, in the
  registry's order, and whose value at a name is the summary of the circuit registered
  under it: its qubit count, its classical-bit count and its \<^verbatim>\<open>size()\<close>. The state is
  unchanged.
\<close>

theorem list_circuits_nonempty:
  assumes "circuits s \<noteq> []"
  shows "\<exists>entries. list_circuits L s = (s, Returns (Json (JObj entries)))
     \<and> map fst entries = map fst (circuits s)
     \<and> (\<forall>name. map_of entries name =
           map_option (\<lambda>c. JObj [(''qubits'', JInt (int (num_qubits c))),
                                  (''classical_bits'', JInt (int (num_clbits c))),
                                  (''gates'', JInt (int (size_of L c)))])
             (circuit_at s name))"
proof -
  let ?entries = "map (\<lambda>(name, r). (name, summary L (heap s ! r))) (circuits s)"
  have "list_circuits L s = (s, Returns (Json (JObj ?entries)))"
    using assms by (simp add: list_circuits_def)
  moreover have "map fst ?entries = map fst (circuits s)"
    by (induction "circuits s") (auto simp: case_prod_beta)
  moreover have "map_of ?entries name = map_option (\<lambda>c. JObj [(''qubits'', JInt (int (num_qubits c))),
                                  (''classical_bits'', JInt (int (num_clbits c))),
                                  (''gates'', JInt (int (size_of L c)))]) (circuit_at s name)" for name
    by (simp add: map_of_map circuit_at_def summary_def option.map_comp comp_def)
  ultimately show ?thesis by blast
qed

theorem list_circuits_nonempty_witness:
  "circuits bell_state \<noteq> []
   \<and> (\<exists>entries. list_circuits toy bell_state = (bell_state, Returns (Json (JObj entries)))
     \<and> map fst entries = map fst (circuits bell_state)
     \<and> (\<forall>name. map_of entries name =
           map_option (\<lambda>c. JObj [(''qubits'', JInt (int (num_qubits c))),
                                  (''classical_bits'', JInt (int (num_clbits c))),
                                  (''gates'', JInt (int (size_of toy c)))])
             (circuit_at bell_state name)))"
proof -
  have a: "circuits bell_state \<noteq> []"
    by (simp add: bell_state_def)
  from list_circuits_nonempty [OF a, of toy] a show ?thesis by blast
qed

text \<open>The listing of the registry that only has \<open>bell\<close>, run.\<close>

lemma list_bell:
  "list_circuits toy bell_state
     = (bell_state, Returns (Json (JObj
          [(''bell'', JObj [(''qubits'', JInt 2), (''classical_bits'', JInt 2), (''gates'', JInt 0)])])))"
  by code_simp

text \<open>
  Claim C9 as stated includes the empty registry. There \<^verbatim>\<open>list_circuits\<close> returns the
  plain text \<^verbatim>\<open>No circuits created yet\<close>, which is not a JSON object; the object with
  exactly the registered names as keys would be the empty object.
\<close>

theorem list_circuits_empty_is_text:
  "list_circuits toy empty_state = (empty_state, Returns (Text ''No circuits created yet''))
   \<and> snd (list_circuits toy empty_state) \<noteq> Returns (Json (JObj []))"
  by (simp add: list_circuits_def empty_state_def)

section \<open>Optimization: the improvement percentage\<close>

text \<open>
  The conditional expression never raises: the division is evaluated only when
  \<open>original_size > 0\<close>, and the value is the integer \<open>0\<close> otherwise.
\<close>

lemma improvement_percentage_total:
  "improvement_percentage L original_size optimized_size =
     Inr (if 0 < original_size
          then JFloat (round2 L (float_mul L
                 (float_div L (original_size - optimized_size) original_size) 100))
          else JInt 0)"
  by (simp add: improvement_percentage_def py_truediv_def)

lemma improvement_percentage_of_empty:
  "improvement_percentage L 0 optimized_size = Inr (JInt 0)"
  by (simp add: improvement_percentage_total)

text \<open>
  Claim C7. A call of \<^verbatim>\<open>optimize_circuit\<close> on a registered circuit with a valid level for
  which the library produces the optimized circuit returns the JSON result (not the
  text of a \<^verbatim>\<open>ZeroDivisionError\<close>), and its \<open>improvement_percentage\<close> is
  \<^verbatim>\<open>round((original_size - optimized_size) / original_size * 100, 2)\<close> in float
  arithmetic when the original size is positive and \<open>0\<close> when it is zero.
\<close>

theorem improvement_percentage_reported:
  assumes "map_of (circuits s) circuit_name = Some r"
    and "optimization_level \<in> {0, 1, 2, 3}"
    and "optimized L (heap s ! r) optimization_level = Inr optimized_circuit"
  shows "\<exists>fields.
           snd (optimize_circuit L uuid s circuit_name optimization_level)
             = Returns (Json (JObj fields))
         \<and> map_of fields ''original_size'' = Some (JInt (int (size_of L (heap s ! r))))
         \<and> map_of fields ''optimized_size'' = Some (JInt (int (size_of L optimized_circuit)))
         \<and> map_of fields ''improvement_percentage'' =
             Some (if 0 < size_of L (heap s ! r)
                   then JFloat (round2 L (float_mul L
                          (float_div L (int (size_of L (heap s ! r)) - int (size_of L optimized_circuit))
                                       (int (size_of L (heap s ! r)))) 100))
                   else JInt 0)"
  using assms
  by (auto simp: optimize_circuit_def improvement_percentage_total alloc_def Let_def)

theorem improvement_percentage_reported_witness:
  "map_of (circuits xx_state) ''xx'' = Some 0
   \<and> (1::int) \<in> {0, 1, 2, 3}
   \<and> optimized toy (heap xx_state ! 0) 1 = Inr xx_optimized
   \<and> (\<exists>fields.
           snd (optimize_circuit toy ''0f8fad5b-d9cb-469f-a165-70867728950e'' xx_state ''xx'' 1)
             = Returns (Json (JObj fields))
         \<and> map_of fields ''original_size'' = Some (JInt 3)
         \<and> map_of fields ''optimized_size'' = Some (JInt 1)
         \<and> map_of fields ''improvement_percentage'' = Some (JFloat (6667 / 100)))"
proof -
  have a: "map_of (circuits xx_state) ''xx'' = Some 0"
    by (simp add: xx_state_def)
  have b: "(1::int) \<in> {0, 1, 2, 3}" by simp
  have c: "optimized toy (heap xx_state ! 0) 1 = Inr xx_optimized"
    by code_simp
  have d: "size_of toy (heap xx_state ! 0) = 3" by code_simp
  have e: "size_of toy xx_optimized = 1" by code_simp
  have f: "round2 toy (float_mul toy (float_div toy 2 3) 100) = 6667 / 100"
    by (simp add: toy_def round_def)
  from improvement_percentage_reported [OF a b c, of "''0f8fad5b-d9cb-469f-a165-70867728950e''"]
  have "\<exists>fields.
           snd (optimize_circuit toy ''0f8fad5b-d9cb-469f-a165-70867728950e'' xx_state ''xx'' 1)
             = Returns (Json (JObj fields))
         \<and> map_of fields ''original_size'' = Some (JInt 3)
         \<and> map_of fields ''optimized_size'' = Some (JInt 1)
         \<and> map_of fields ''improvement_percentage'' = Some (JFloat (6667 / 100))"
    by (simp add: d e f)
  with a b c show ?thesis by blast
qed

text \<open>A circuit without gates: the percentage is the integer zero.\<close>

lemma optimize_empty_circuit:
  "snd (optimize_circuit toy ''0f8fad5b-d9cb-469f-a165-70867728950e'' bell_state ''bell'' 0)
     = Returns (Json (JObj
         [(''original_circuit'', JStr ''bell''),
          (''optimized_circuit'', JStr ''bell_opt0_0f8fad5b''),
          (''optimization_level'', JInt 0),
          (''original_size'', JInt 0),
          (''optimized_size'', JInt 0),
          (''size_reduction'', JInt 0),
          (''original_depth'', JInt 0),
          (''optimized_depth'', JInt 0),
          (''depth_reduction'', JInt 0),
          (''improvement_percentage'', JInt 0)]))"
  by code_simp

section \<open>Derivative tools leave the original circuit alone\<close>

lemma wf_ref: "wf_state s \<Longrightarrow> map_of (circuits s) name = Some r \<Longrightarrow> r < length (heap s)"
  by (auto simp: wf_state_def list_all_iff dest!: map_of_SomeD)

lemma optimized_name_differs: "optimized_name circuit_name level uuid \<noteq> circuit_name"
  by (simp add: optimized_name_def)

lemma optimize_circuit_state:
  assumes "map_of (circuits s) circuit_name = Some r"
  shows "fst (optimize_circuit L uuid s circuit_name optimization_level) =
           (if optimization_level \<in> {0, 1, 2, 3}
            then (case optimized L (heap s ! r) optimization_level of
                    Inl e \<Rightarrow> s
                  | Inr optimized_circuit \<Rightarrow>
                      \<lparr>circuits = AList.update (optimized_name circuit_name optimization_level uuid)
                                    (length (heap s)) (circuits s),
                       heap = heap s @ [optimized_circuit]\<rparr>)
            else s)"
  using assms
  by (auto simp: optimize_circuit_def optimized_name_def alloc_def bind_name_def Let_def
      improvement_percentage_total split: sum.splits)

lemma analysis_state:
  assumes "map_of (circuits s) circuit_name = Some r"
  shows "circuits (fst (analyze_statevector L s circuit_name)) = circuits s
         \<and> (\<exists>copy. heap (fst (analyze_statevector L s circuit_name)) = heap s @ [copy])"
    and "circuits (fst (compute_density_matrix L s circuit_name)) = circuits s
         \<and> (\<exists>copy. heap (fst (compute_density_matrix L s circuit_name)) = heap s @ [copy])"
  using assms
  by (auto simp: analyze_statevector_def compute_density_matrix_def alloc_def mutate_def Let_def
      split: sum.splits)

text \<open>
  Claim C6. Let \<open>circuit_name\<close> be registered in a well-formed state. After
  \<^verbatim>\<open>optimize_circuit\<close>, \<^verbatim>\<open>analyze_statevector\<close> and \<^verbatim>\<open>compute_density_matrix\<close> the name is
  still bound to the same circuit with the same contents, and every object that was in
  the store is unchanged. When \<^verbatim>\<open>optimize_circuit\<close> has a valid level and the library
  produces the optimized circuit, the result is a new object, bound to the original
  name followed by \<open>_opt\<close>, the level, \<open>_\<close> and the first eight characters of a UUID;
  that name differs from the original name. The analysis tools strip the measurements
  of a copy that is a new object and leave the dictionary as it is.
\<close>

theorem derivative_tools_keep_original:
  assumes "wf_state s" and "map_of (circuits s) circuit_name = Some r"
  shows "circuit_at (fst (optimize_circuit L uuid s circuit_name optimization_level)) circuit_name
           = Some (heap s ! r)
       \<and> take (length (heap s)) (heap (fst (optimize_circuit L uuid s circuit_name optimization_level)))
           = heap s
       \<and> (optimization_level \<in> {0, 1, 2, 3}
            \<and> optimized L (heap s ! r) optimization_level = Inr optimized_circuit
          \<longrightarrow> fst (optimize_circuit L uuid s circuit_name optimization_level)
                = \<lparr>circuits = AList.update (optimized_name circuit_name optimization_level uuid)
                                (length (heap s)) (circuits s),
                   heap = heap s @ [optimized_circuit]\<rparr>
              \<and> optimized_name circuit_name optimization_level uuid \<noteq> circuit_name)
       \<and> circuits (fst (analyze_statevector L s circuit_name)) = circuits s
       \<and> circuit_at (fst (analyze_statevector L s circuit_name)) circuit_name = Some (heap s ! r)
       \<and> take (length (heap s)) (heap (fst (analyze_statevector L s circuit_name))) = heap s
       \<and> circuits (fst (compute_density_matrix L s circuit_name)) = circuits s
       \<and> circuit_at (fst (compute_density_matrix L s circuit_name)) circuit_name = Some (heap s ! r)
       \<and> take (length (heap s)) (heap (fst (compute_density_matrix L s circuit_name))) = heap s"
proof -
  from assms have r: "r < length (heap s)" by (rule wf_ref)
  note found = assms(2)
  let ?o = "fst (optimize_circuit L uuid s circuit_name optimization_level)"
  have o1: "circuit_at ?o circuit_name = Some (heap s ! r)"
    using found r optimized_name_differs [of circuit_name optimization_level uuid]
    by (auto simp: optimize_circuit_state [OF found] circuit_at_def update_conv' nth_append
        split: sum.splits)
  have o2: "take (length (heap s)) (heap ?o) = heap s"
    by (auto simp: optimize_circuit_state [OF found] split: sum.splits)
  have o3: "optimization_level \<in> {0, 1, 2, 3}
            \<and> optimized L (heap s ! r) optimization_level = Inr optimized_circuit
          \<longrightarrow> ?o = \<lparr>circuits = AList.update (optimized_name circuit_name optimization_level uuid)
                                (length (heap s)) (circuits s),
                   heap = heap s @ [optimized_circuit]\<rparr>
              \<and> optimized_name circuit_name optimization_level uuid \<noteq> circuit_name"
    by (auto simp: optimize_circuit_state [OF found] optimized_name_differs)
  from analysis_state(1) [OF found, of L] obtain c1
    where a: "circuits (fst (analyze_statevector L s circuit_name)) = circuits s"
      "heap (fst (analyze_statevector L s circuit_name)) = heap s @ [c1]"
    by blast
  from analysis_state(2) [OF found, of L] obtain c2
    where d: "circuits (fst (compute_density_matrix L s circuit_name)) = circuits s"
      "heap (fst (compute_density_matrix L s circuit_name)) = heap s @ [c2]"
    by blast
  have a1: "circuits (fst (analyze_statevector L s circuit_name)) = circuits s"
    and a2: "circuit_at (fst (analyze_statevector L s circuit_name)) circuit_name = Some (heap s ! r)"
    and a3: "take (length (heap s)) (heap (fst (analyze_statevector L s circuit_name))) = heap s"
    using found r by (simp_all add: a circuit_at_def nth_append)
  have d1: "circuits (fst (compute_density_matrix L s circuit_name)) = circuits s"
    and d2: "circuit_at (fst (compute_density_matrix L s circuit_name)) circuit_name = Some (heap s ! r)"
    and d3: "take (length (heap s)) (heap (fst (compute_density_matrix L s circuit_name))) = heap s"
    using found r by (simp_all add: d circuit_at_def nth_append)
  from o1 o2 o3 a1 a2 a3 d1 d2 d3 show ?thesis by blast
qed

text \<open>The three tools on \<open>xx\<close>: X twice on qubit 0 and a final measurement.\<close>

theorem derivative_tools_keep_original_witness:
  "wf_state xx_state
   \<and> map_of (circuits xx_state) ''xx'' = Some 0
   \<and> (1::int) \<in> {0, 1, 2, 3}
   \<and> optimized toy (heap xx_state ! 0) 1 = Inr xx_optimized
   \<and> circuit_at (fst (optimize_circuit toy ''0f8fad5b-d9cb-469f-a165-70867728950e'' xx_state ''xx'' 1)) ''xx''
        = Some xx_circuit
   \<and> fst (optimize_circuit toy ''0f8fad5b-d9cb-469f-a165-70867728950e'' xx_state ''xx'' 1)
        = \<lparr>circuits = [(''xx'', 0), (''xx_opt1_0f8fad5b'', 1)], heap = [xx_circuit, xx_optimized]\<rparr>
   \<and> circuits (fst (analyze_statevector toy xx_state ''xx'')) = [(''xx'', 0)]
   \<and> circuit_at (fst (analyze_statevector toy xx_state ''xx'')) ''xx'' = Some xx_circuit
   \<and> circuits (fst (compute_density_matrix toy xx_state ''xx'')) = [(''xx'', 0)]
   \<and> circuit_at (fst (compute_density_matrix toy xx_state ''xx'')) ''xx'' = Some xx_circuit"
proof -
  have w: "wf_state xx_state" by code_simp
  have f: "map_of (circuits xx_state) ''xx'' = Some 0"
    by (simp add: xx_state_def)
  have l: "(1::int) \<in> {0, 1, 2, 3}" by simp
  have c: "optimized toy (heap xx_state ! 0) 1 = Inr xx_optimized"
    by code_simp
  have h: "heap xx_state ! 0 = xx_circuit" "circuits xx_state = [(''xx'', 0)]"
    "heap xx_state = [xx_circuit]"
    by (simp_all add: xx_state_def)
  have n: "optimized_name ''xx'' 1 ''0f8fad5b-d9cb-469f-a165-70867728950e'' = ''xx_opt1_0f8fad5b''"
    by code_simp
  note t = derivative_tools_keep_original [OF w f, of toy "''0f8fad5b-d9cb-469f-a165-70867728950e''" 1
      xx_optimized]
  from t l c have s1: "fst (optimize_circuit toy ''0f8fad5b-d9cb-469f-a165-70867728950e'' xx_state ''xx'' 1)
        = \<lparr>circuits = [(''xx'', 0), (''xx_opt1_0f8fad5b'', 1)], heap = [xx_circuit, xx_optimized]\<rparr>"
    by (simp add: h n)
  from t show ?thesis
    using w f l c s1 by (simp add: h n)
qed

text \<open>
  The analysis of \<open>xx\<close>, run: the stripped copy is the second object of the store, the
  registered circuit still has its measurement.
\<close>

lemma analyze_xx:
  "analyze_statevector toy xx_state ''xx''
     = (\<lparr>circuits = [(''xx'', 0)],
         heap = [xx_circuit, \<lparr>num_qubits = 1, num_clbits = 1, data = [x_on_0, x_on_0]\<rparr>]\<rparr>,
        Returns (Json (JObj [(''circuit'', JStr ''xx''), (''num_qubits'', JInt 1)])))"
  by code_simp

section \<open>The diagram: what the walk emits\<close>

lemma link_all_ok:
  assumes "distinct qs" and "\<forall>q\<in>set qs. q < n" and "tracks n cur w"
  shows "\<exists>w'. link_all node_id qs w = Inr w'
           \<and> mermaid_lines w' = mermaid_lines w @ map (\<lambda>q. edge (cur q) node_id) qs
           \<and> gate_counter w' = gate_counter w
           \<and> tracks n (\<lambda>q. if q \<in> set qs then node_id else cur q) w'"
  using assms
proof (induction qs arbitrary: w cur)
  case Nil
  then show ?case by simp
next
  case (Cons q qs)
  let ?w1 = "w\<lparr>mermaid_lines := mermaid_lines w @ [edge (cur q) node_id],
               qubit_current_nodes := (qubit_current_nodes w)(q \<mapsto> node_id)\<rparr>"
  let ?cur1 = "cur(q := node_id)"
  from Cons.prems have q: "qubit_current_nodes w q = Some (cur q)"
    by (simp add: tracks_def)
  then have step: "link node_id q w = Inr ?w1"
    by (simp add: link_def)
  have t1: "tracks n ?cur1 ?w1"
    using Cons.prems(3) by (simp add: tracks_def)
  from Cons.prems have d: "distinct qs" and b: "\<forall>q\<in>set qs. q < n" and nq: "q \<notin> set qs"
    by simp_all
  from Cons.IH [OF d b t1] obtain w' where
    run: "link_all node_id qs ?w1 = Inr w'"
    and ls: "mermaid_lines w' = mermaid_lines ?w1 @ map (\<lambda>x. edge (?cur1 x) node_id) qs"
    and gc: "gate_counter w' = gate_counter ?w1"
    and tr: "tracks n (\<lambda>x. if x \<in> set qs then node_id else ?cur1 x) w'"
    by blast
  have same: "map (\<lambda>x. edge (?cur1 x) node_id) qs = map (\<lambda>x. edge (cur x) node_id) qs"
    using nq by (intro map_cong) auto
  have fn: "(\<lambda>x. if x \<in> set qs then node_id else ?cur1 x)
            = (\<lambda>x. if x \<in> set (q # qs) then node_id else cur x)"
    by auto
  have ls': "mermaid_lines w' = mermaid_lines w @ map (\<lambda>x. edge (cur x) node_id) (q # qs)"
    unfolding ls same by simp
  have tr': "tracks n (\<lambda>x. if x \<in> set (q # qs) then node_id else cur x) w'"
    using tr unfolding fn .
  have run': "link_all node_id (q # qs) w = Inr w'"
    using step run by simp
  from run' ls' gc tr' show ?case
    by (intro exI [of _ w']) simp
qed

lemma link_first_ok:
  assumes "qs \<noteq> []" and "qs ! 0 < n" and "tracks n cur w"
  shows "\<exists>w'. link_first node_id qs w = Inr w'
           \<and> mermaid_lines w' = mermaid_lines w @ map (\<lambda>q. edge (cur q) node_id) (take 1 qs)
           \<and> gate_counter w' = gate_counter w
           \<and> tracks n (\<lambda>q. if q \<in> set (take 1 qs) then node_id else cur q) w'"
proof -
  from assms(1) obtain q0 rest where qs: "qs = q0 # rest" by (cases qs) auto
  with assms have "qubit_current_nodes w q0 = Some (cur q0)"
    by (simp add: tracks_def)
  with assms(3) show ?thesis
    by (simp add: qs link_first_def py_index_def link_def tracks_def)
qed

lemma link_pair_ok:
  assumes "2 \<le> length qs" and "qs ! 0 < n" and "qs ! 1 < n" and "tracks n cur w"
  shows "\<exists>w'. link_pair node_id qs w = Inr w'
           \<and> mermaid_lines w' = mermaid_lines w @ map (\<lambda>q. edge (cur q) node_id) (take 2 qs)
           \<and> gate_counter w' = gate_counter w
           \<and> tracks n (\<lambda>q. if q \<in> set (take 2 qs) then node_id else cur q) w'"
proof -
  from assms(1) obtain q0 q1 rest where qs: "qs = q0 # q1 # rest"
    by (cases qs; cases "tl qs") auto
  with assms have "qubit_current_nodes w q0 = Some (cur q0)" "qubit_current_nodes w q1 = Some (cur q1)"
    by (simp_all add: tracks_def)
  with assms(4) show ?thesis
    by (simp add: qs link_pair_def py_index_def tracks_def numeral_2_eq_2)
qed

lemma link_measure_ok:
  assumes "qs \<noteq> []" and "qs ! 0 < n" and "tracks n cur w"
  shows "\<exists>w'. link_measure node_id qs cs w = Inr w'
           \<and> mermaid_lines w' = mermaid_lines w @ map (\<lambda>q. edge (cur q) node_id) (take 1 qs)
               @ (if cs \<noteq> []
                  then [edge node_id (''C'' @ str_nat (cs ! 0) @ ''_end'' @ str_nat (gate_counter w))]
                  else [])
           \<and> gate_counter w' = gate_counter w
           \<and> tracks n (\<lambda>q. if q \<in> set (take 1 qs) then node_id else cur q) w'"
proof -
  from assms(1) obtain q0 rest where qs: "qs = q0 # rest" by (cases qs) auto
  with assms have "qubit_current_nodes w q0 = Some (cur q0)"
    by (simp add: tracks_def)
  with assms(3) show ?thesis
    by (simp add: qs link_measure_def py_index_def tracks_def)
qed

lemma add_node_fields:
  "mermaid_lines (add_node node_id label w) = mermaid_lines w @ [node_decl node_id label]"
  "gate_counter (add_node node_id label w) = gate_counter w"
  "tracks n cur (add_node node_id label w) = tracks n cur w"
  "tracks n cur (w\<lparr>gate_counter := k\<rparr>) = tracks n cur w"
  by (simp_all add: add_node_def tracks_def)

lemma wf_instr_first:
  assumes "wf_instr n i" and "needed i = 1"
  shows "op_qubits i \<noteq> []" and "op_qubits i ! 0 < n"
proof -
  from assms have len: "0 < length (op_qubits i)" and below: "\<forall>q\<in>set (op_qubits i). q < n"
    by (auto simp: wf_instr_def list_all_iff)
  from len show "op_qubits i \<noteq> []" by auto
  from len have "op_qubits i ! 0 \<in> set (op_qubits i)" by (rule nth_mem)
  with below show "op_qubits i ! 0 < n" by blast
qed

lemma wf_instr_pair:
  assumes "wf_instr n i" and "needed i = 2"
  shows "2 \<le> length (op_qubits i)" and "op_qubits i ! 0 < n" and "op_qubits i ! 1 < n"
proof -
  from assms show len: "2 \<le> length (op_qubits i)"
    by (simp add: wf_instr_def)
  from assms have below: "\<forall>q\<in>set (op_qubits i). q < n"
    by (auto simp: wf_instr_def list_all_iff)
  from len have l0: "0 < length (op_qubits i)" and l1: "1 < length (op_qubits i)"
    by linarith+
  from l0 have "op_qubits i ! 0 \<in> set (op_qubits i)" by (rule nth_mem)
  with below show "op_qubits i ! 0 < n" by blast
  from l1 have "op_qubits i ! 1 \<in> set (op_qubits i)" by (rule nth_mem)
  with below show "op_qubits i ! 1 < n" by blast
qed

lemma wf_instr_all:
  assumes "wf_instr n i"
  shows "distinct (op_qubits i)" and "\<forall>q\<in>set (op_qubits i). q < n"
  using assms by (auto simp: wf_instr_def list_all_iff)

text \<open>One pass of the loop body on a well-formed instruction.\<close>

lemma emit_instruction_ok:
  assumes wf: "wf_instr n i" and tr: "tracks n cur w"
  shows "\<exists>w'. emit_instruction L i w = Inr w'
           \<and> mermaid_lines w' = mermaid_lines w @ instr_lines L cur (Suc (gate_counter w)) i
           \<and> gate_counter w' = Suc (gate_counter w)
           \<and> tracks n (\<lambda>q. if q \<in> set (touched i) then node_of (Suc (gate_counter w)) i else cur q) w'"
proof -
  let ?g = "upper (op_name i)"
  let ?k = "Suc (gate_counter w)"
  let ?w = "w\<lparr>gate_counter := ?k\<rparr>"
  let ?id = "node_of ?k i"
  let ?wn = "add_node ?id (label_of L i) ?w"
  have trn: "tracks n cur ?wn"
    using tr by (simp add: add_node_fields)
  consider (first) "?g \<in> set [''H'', ''X'', ''Y'', ''Z'']"
    | (pair) "?g \<in> set [''CX'', ''CNOT'', ''SWAP'']"
    | (measure) "?g = ''MEASURE''"
    | (every) "?g \<notin> set [''H'', ''X'', ''Y'', ''Z'', ''CX'', ''CNOT'', ''SWAP'', ''MEASURE'']"
    by auto
  then show ?thesis
  proof cases
    case first
    then have nd: "needed i = 1" and tc: "touched i = take 1 (op_qubits i)"
      by (auto simp: needed_def touched_def)
    from first have run: "emit_instruction L i w = link_first ?id (op_qubits i) ?wn"
      by (auto simp: emit_instruction_def node_of_def label_of_def Let_def)
    from link_first_ok [OF wf_instr_first [OF wf nd] trn, of ?id]
    obtain w' where "link_first ?id (op_qubits i) ?wn = Inr w'"
      and "mermaid_lines w' = mermaid_lines ?wn @ map (\<lambda>q. edge (cur q) ?id) (take 1 (op_qubits i))"
      and "gate_counter w' = gate_counter ?wn"
      and "tracks n (\<lambda>q. if q \<in> set (take 1 (op_qubits i)) then ?id else cur q) w'"
      by blast
    with first show ?thesis
      by (intro exI [of _ w']) (auto simp: run tc instr_lines_def add_node_fields)
  next
    case pair
    then have nd: "needed i = 2" and tc: "touched i = take 2 (op_qubits i)"
      by (auto simp: needed_def touched_def)
    from pair have run: "emit_instruction L i w = link_pair ?id (op_qubits i) ?wn"
      by (auto simp: emit_instruction_def node_of_def label_of_def Let_def)
    from link_pair_ok [OF wf_instr_pair [OF wf nd] trn, of ?id]
    obtain w' where "link_pair ?id (op_qubits i) ?wn = Inr w'"
      and "mermaid_lines w' = mermaid_lines ?wn @ map (\<lambda>q. edge (cur q) ?id) (take 2 (op_qubits i))"
      and "gate_counter w' = gate_counter ?wn"
      and "tracks n (\<lambda>q. if q \<in> set (take 2 (op_qubits i)) then ?id else cur q) w'"
      by blast
    with pair show ?thesis
      by (intro exI [of _ w']) (auto simp: run tc instr_lines_def add_node_fields)
  next
    case measure
    then have nd: "needed i = 1" and tc: "touched i = take 1 (op_qubits i)"
      by (auto simp: needed_def touched_def)
    from measure have run: "emit_instruction L i w = link_measure ?id (op_qubits i) (op_clbits i) ?wn"
      by (auto simp: emit_instruction_def node_of_def label_of_def Let_def)
    from link_measure_ok [OF wf_instr_first [OF wf nd] trn, of ?id "op_clbits i"]
    obtain w' where "link_measure ?id (op_qubits i) (op_clbits i) ?wn = Inr w'"
      and "mermaid_lines w' = mermaid_lines ?wn @ map (\<lambda>q. edge (cur q) ?id) (take 1 (op_qubits i))
               @ (if op_clbits i \<noteq> []
                  then [edge ?id (''C'' @ str_nat (op_clbits i ! 0) @ ''_end'' @ str_nat (gate_counter ?wn))]
                  else [])"
      and "gate_counter w' = gate_counter ?wn"
      and "tracks n (\<lambda>q. if q \<in> set (take 1 (op_qubits i)) then ?id else cur q) w'"
      by blast
    with measure show ?thesis
      by (intro exI [of _ w']) (auto simp: run tc instr_lines_def add_node_fields)
  next
    case every
    then have tc: "touched i = op_qubits i"
      by (auto simp: touched_def)
    from every have run: "emit_instruction L i w = link_all ?id (op_qubits i) ?wn"
      by (auto simp: emit_instruction_def node_of_def label_of_def Let_def)
    from link_all_ok [OF wf_instr_all [OF wf] trn, of ?id]
    obtain w' where "link_all ?id (op_qubits i) ?wn = Inr w'"
      and "mermaid_lines w' = mermaid_lines ?wn @ map (\<lambda>q. edge (cur q) ?id) (op_qubits i)"
      and "gate_counter w' = gate_counter ?wn"
      and "tracks n (\<lambda>q. if q \<in> set (op_qubits i) then ?id else cur q) w'"
      by blast
    with every show ?thesis
      by (intro exI [of _ w']) (auto simp: run tc instr_lines_def add_node_fields)
  qed
qed

lemma latest_Cons:
  "latest init ((k, i) # ops)
     = latest (\<lambda>q. if q \<in> set (touched i) then node_of k i else init q) ops"
  by (rule ext) (simp add: latest_def split: list.splits)

lemma latest_Nil: "latest init [] = init"
  by (rule ext) (simp add: latest_def)

lemma numbered_from_Cons:
  "numbered_from k (i # rest) = (Suc k, i) # numbered_from (Suc k) rest"
proof -
  have "[Suc k..<Suc k + length (i # rest)] = Suc k # [Suc (Suc k)..<Suc (Suc k) + length rest]"
    by (subst upt_rec) simp
  then show ?thesis
    by (simp add: numbered_from_def)
qed

lemma map_upt_shift: "map f [0..<Suc m] = f 0 # map (\<lambda>j. f (Suc j)) [0..<m]"
proof -
  have "[0..<Suc m] = 0 # map Suc [0..<m]"
    by (simp add: upt_conv_Cons map_Suc_upt del: upt_Suc)
  then show ?thesis by (simp add: comp_def del: upt_Suc)
qed

text \<open>The walk over a list of well-formed instructions.\<close>

lemma emit_all_ok:
  assumes "list_all (wf_instr n) is" and "tracks n cur w"
  shows "\<exists>w'. emit_all L is w = Inr w'
           \<and> mermaid_lines w' = mermaid_lines w
               @ concat (map (\<lambda>j. instr_lines L (latest cur (take j (numbered_from (gate_counter w) is)))
                                     (gate_counter w + Suc j) (is ! j)) [0..<length is])
           \<and> tracks n (latest cur (numbered_from (gate_counter w) is)) w'"
  using assms
proof (induction "is" arbitrary: w cur)
  case Nil
  then show ?case
    by (simp add: numbered_from_def latest_Nil)
next
  case (Cons i rest)
  let ?k = "gate_counter w"
  let ?cur1 = "\<lambda>q. if q \<in> set (touched i) then node_of (Suc ?k) i else cur q"
  from Cons.prems have wf: "wf_instr n i" and wfs: "list_all (wf_instr n) rest"
    by simp_all
  from emit_instruction_ok [OF wf Cons.prems(2), of L] obtain w1 where
    step: "emit_instruction L i w = Inr w1"
    and l1: "mermaid_lines w1 = mermaid_lines w @ instr_lines L cur (Suc ?k) i"
    and g1: "gate_counter w1 = Suc ?k"
    and t1: "tracks n ?cur1 w1"
    by blast
  from Cons.IH [OF wfs t1] obtain w' where
    run: "emit_all L rest w1 = Inr w'"
    and ls: "mermaid_lines w' = mermaid_lines w1
               @ concat (map (\<lambda>j. instr_lines L (latest ?cur1 (take j (numbered_from (gate_counter w1) rest)))
                                     (gate_counter w1 + Suc j) (rest ! j)) [0..<length rest])"
    and tr: "tracks n (latest ?cur1 (numbered_from (gate_counter w1) rest)) w'"
    by blast
  have run': "emit_all L (i # rest) w = Inr w'"
    using step run by simp
  have later: "latest cur (take (Suc j) (numbered_from ?k (i # rest)))
                = latest ?cur1 (take j (numbered_from (Suc ?k) rest))" for j
    by (simp add: numbered_from_Cons latest_Cons)
  have ls': "mermaid_lines w' = mermaid_lines w
               @ concat (map (\<lambda>j. instr_lines L (latest cur (take j (numbered_from ?k (i # rest))))
                                     (?k + Suc j) ((i # rest) ! j)) [0..<length (i # rest)])"
    by (simp add: ls l1 g1 map_upt_shift latest_Nil later del: upt_Suc)
  have tr': "tracks n (latest cur (numbered_from ?k (i # rest))) w'"
    using tr by (simp add: g1 numbered_from_Cons latest_Cons)
  from run' ls' tr' show ?case by blast
qed

lemma final_lines_ok:
  assumes "\<forall>q\<in>set qs. q < n" and "tracks n cur w"
  shows "final_lines (qubit_current_nodes w) qs = Inr (concat (map (terminal_lines cur) qs))"
  using assms by (induction qs) (auto simp: tracks_def terminal_lines_def)

text \<open>
  Claim C8, as the code has it. For a well-formed circuit the diagram is, in this
  order: the start lines; for every instruction, in application order and numbered
  from 1, its node followed by one edge into it from the most recently emitted node of
  every qubit wire it is linked on (the start node of the qubit when no earlier
  instruction touched it), and for a measurement the edge to its classical end node;
  for every qubit its terminal node and the edge to it from the last node on that
  qubit's wire; the styling. Only qubit wires have a current node: no edge comes from
  the node of a classical bit.
\<close>

theorem diagram_follows_qubit_wires:
  assumes "wf_circuit c"
  shows "diagram L c =
           Inr (start_lines (num_qubits c) (num_clbits c)
                @ concat (map (\<lambda>j. instr_lines L (last_node (take j (numbered_from 0 (data c))))
                                      (Suc j) (data c ! j))
                              [0..<length (data c)])
                @ concat (map (terminal_lines (last_node (numbered_from 0 (data c))))
                              [0..<num_qubits c])
                @ styling)"
proof -
  let ?n = "num_qubits c"
  let ?w0 = "\<lparr>mermaid_lines = start_lines ?n (num_clbits c),
              qubit_current_nodes = (\<lambda>i. if i < ?n then Some (start_node i) else None),
              gate_counter = 0\<rparr>"
  have last: "last_node ops = latest start_node ops" for ops
    by (rule ext) (simp add: last_node_def)
  have t0: "tracks ?n start_node ?w0"
    by (simp add: tracks_def)
  from assms have wf: "list_all (wf_instr ?n) (data c)"
    by (simp add: wf_circuit_def)
  from emit_all_ok [OF wf t0, of L] obtain w where
    run: "emit_all L (data c) ?w0 = Inr w"
    and ls: "mermaid_lines w = start_lines ?n (num_clbits c)
               @ concat (map (\<lambda>j. instr_lines L (latest start_node (take j (numbered_from 0 (data c))))
                                     (Suc j) (data c ! j)) [0..<length (data c)])"
    and tr: "tracks ?n (latest start_node (numbered_from 0 (data c))) w"
    by auto
  have fin: "final_lines (qubit_current_nodes w) [0..<?n]
               = Inr (concat (map (terminal_lines (latest start_node (numbered_from 0 (data c)))) [0..<?n]))"
    by (rule final_lines_ok [OF _ tr]) simp
  show ?thesis
    by (simp add: diagram_def Let_def run fin ls last)
qed

theorem diagram_follows_qubit_wires_witness:
  "wf_circuit sample_circuit \<and> diagram toy sample_circuit = Inr sample_lines"
proof -
  have w: "wf_circuit sample_circuit" by code_simp
  have e: "start_lines (num_qubits sample_circuit) (num_clbits sample_circuit)
           @ concat (map (\<lambda>j. instr_lines toy (last_node (take j (numbered_from 0 (data sample_circuit))))
                                 (Suc j) (data sample_circuit ! j))
                         [0..<length (data sample_circuit)])
           @ concat (map (terminal_lines (last_node (numbered_from 0 (data sample_circuit))))
                         [0..<num_qubits sample_circuit])
           @ styling
           = sample_lines"
    by code_simp
  from diagram_follows_qubit_wires [OF w, of toy] have "diagram toy sample_circuit = Inr sample_lines"
    unfolding e .
  with w show ?thesis by simp
qed

text \<open>
  Claim C8 as stated also has a current node for every classical-bit wire and an edge
  into each new node from the prior node of every wire the operation touches. Both
  measurements of \<open>two_measures\<close> write classical bit 0, yet no edge leads from the
  start node of that bit to the first measurement, and none from the first measurement
  (the node that touched the bit last) to the second: the walk keeps current nodes for
  qubits only, and a measurement gets an edge to a new node named after the bit and
  the counter.
\<close>

theorem classical_wires_not_tracked:
  "diagram toy two_measures = Inr two_measures_lines
   \<and> edge ''C0_start'' ''M1'' \<notin> set two_measures_lines
   \<and> edge ''M1'' ''M2'' \<notin> set two_measures_lines"
  by code_simp

section \<open>Well-formed states\<close>

text \<open>
  The registry starts empty, and the tools that change the state keep every registered
  reference inside the store.
\<close>

lemma wf_state_empty: "wf_state empty_state"
  by (simp add: wf_state_def empty_state_def)

lemma set_update_subset: "set (AList.update k v al) \<subseteq> insert (k, v) (set al)"
  by (induction al) auto

lemma wf_state_grow:
  assumes "wf_state s"
    and "circuits s' = AList.update name (length (heap s)) (circuits s)"
    and "heap s' = heap s @ [c]"
  shows "wf_state s'"
proof -
  have "r < length (heap s')" if "(n, r) \<in> set (circuits s')" for n r
  proof -
    from that assms(2) set_update_subset [of name "length (heap s)" "circuits s"]
    have "(n, r) = (name, length (heap s)) \<or> (n, r) \<in> set (circuits s)"
      by auto
    with assms(1,3) show ?thesis
      by (auto simp: wf_state_def list_all_iff)
  qed
  then show ?thesis
    by (auto simp: wf_state_def list_all_iff)
qed

lemma create_preserves_wf:
  "wf_state s \<Longrightarrow>
   wf_state (fst (create_quantum_circuit L timestamp uuid s n_qubits num_classical_bits name))"
  by (auto simp: create_quantum_circuit_def alloc_def bind_name_def Let_def
      split: sum.splits intro: wf_state_grow)

lemma gates_loop_preserves_wf:
  "wf_state s \<Longrightarrow> gates_loop body s r gates applied = (s1, e) \<Longrightarrow> wf_state s1"
  by (drule gates_loop_frame) (simp add: wf_state_def)

lemma add_gates_preserves_wf:
  "wf_state s \<Longrightarrow> wf_state (fst (add_gates L s circuit_name gates))"
  "wf_state s \<Longrightarrow> wf_state (fst (add_advanced_gates L s circuit_name gates))"
  by (auto simp: add_gates_def add_advanced_gates_def
      split: option.splits prod.splits loop_end.splits dest: gates_loop_preserves_wf)

lemma optimize_preserves_wf:
  assumes "wf_state s"
  shows "wf_state (fst (optimize_circuit L uuid s circuit_name optimization_level))"
proof (cases "map_of (circuits s) circuit_name")
  case None
  with assms show ?thesis by (simp add: optimize_circuit_def)
next
  case (Some r)
  with assms show ?thesis
    by (auto simp: optimize_circuit_state [OF Some] split: sum.splits intro: wf_state_grow)
qed

end
